theory Spec2Isabelle
  imports Complex_Main
begin

section \<open>Data model of the pupil tracker\<close>

text \<open>
  The tracker of \<^verbatim>\<open>PupilTrackerGUI.py\<close> is the class \<^verbatim>\<open>PupilTracker\<close>. Its methods
  mutate the fields of \<^verbatim>\<open>self\<close> and raise Python exceptions; here every method takes the
  tracker and returns the outcome (an error or a value) together with the tracker as the
  method leaves it, so that what was assigned before a \<^verbatim>\<open>raise\<close> is kept.

  Numbers: pixel coordinates and indexes are Python integers (\<open>int\<close>); areas, lengths and
  fitted centres are floats in the source and real numbers here.
\<close>

type_synonym point = "int \<times> int"
type_synonym contour = "point list"
type_synonym pixel = "nat \<times> nat \<times> nat"
type_synonym image = "pixel list list"
type_synonym gray = "nat list list"
type_synonym kernel = "nat list list"
type_synonym roi = "point \<times> point"
type_synonym rotated = "(real \<times> real) \<times> (real \<times> real) \<times> real"

datatype error =
    EOFError | IOError | AttributeError | IndexError
  | ZeroDivisionError | TypeError | CvError | RuntimeError

text \<open>
  The video capture object (\<^verbatim>\<open>cv2.VideoCapture\<close>): the decoded frames and the read
  position. \<^verbatim>\<open>read()\<close> returns the frame at the position and advances, or reports that there
  is none; \<^verbatim>\<open>set(CAP_PROP_POS_FRAMES, k)\<close> moves the position.
\<close>

record capture =
  frames :: "image list"
  pos :: nat

definition cap_read :: "capture \<Rightarrow> image option \<times> capture" where
  "cap_read c =
     (if pos c < length (frames c)
      then (Some (frames c ! pos c), c\<lparr>pos := Suc (pos c)\<rparr>)
      else (None, c))"

definition cap_set_pos :: "capture \<Rightarrow> nat \<Rightarrow> capture" where
  "cap_set_pos c k = c\<lparr>pos := k\<rparr>"

definition cap_frame_count :: "capture \<Rightarrow> int" where
  "cap_frame_count c = int (length (frames c))"

text \<open>
  The image library (\<^verbatim>\<open>cv2\<close>) is not part of the program: the functions the tracker calls
  are the fields of a record, and every definition below takes that record as its first
  argument. A call of the library is taken to return, with two exceptions that are written
  out where they occur: the blur of an empty image, and the addition of an offset to a
  contour when the offset does not fit the array.
\<close>

record cv =
  resize :: "image \<Rightarrow> real \<Rightarrow> real \<Rightarrow> image"
  GaussianBlur :: "image \<Rightarrow> image"
  cvtColor :: "image \<Rightarrow> gray"
  threshold :: "gray \<Rightarrow> nat \<Rightarrow> nat \<Rightarrow> gray"
  morphologyEx :: "gray \<Rightarrow> kernel option \<Rightarrow> nat \<Rightarrow> gray"
  findContours :: "gray \<Rightarrow> contour list"
  contourArea :: "contour \<Rightarrow> real"
  convexHull :: "contour \<Rightarrow> contour"
  arcLength :: "contour \<Rightarrow> bool \<Rightarrow> real"
  minAreaRect :: "contour \<Rightarrow> rotated"
  fitEllipse :: "contour \<Rightarrow> rotated"
  boxPoints :: "rotated \<Rightarrow> (real \<times> real) list"
  circle :: "image \<Rightarrow> point \<Rightarrow> int \<Rightarrow> pixel \<Rightarrow> image"
  drawContours :: "image \<Rightarrow> contour list \<Rightarrow> int \<Rightarrow> pixel \<Rightarrow> int \<Rightarrow> image"
  ellipse :: "image \<Rightarrow> rotated \<Rightarrow> pixel \<Rightarrow> int \<Rightarrow> image"
  rectangle :: "image \<Rightarrow> point \<Rightarrow> point \<Rightarrow> pixel \<Rightarrow> image"

text \<open>The fields of \<^verbatim>\<open>PupilTracker\<close>; \<open>None\<close> is Python's \<^verbatim>\<open>None\<close>.\<close>

record tracker =
  cap :: "capture option"
  num_frames :: "int option"
  frame :: "image option"
  dx :: "int option"
  dy :: "int option"
  orig_image :: "image option"
  noise_kernel :: "kernel option"
  roi_pupil :: "roi option"
  roi_refle :: "roi option"

type_synonym 'a outcome = "(error + 'a) \<times> tracker"

definition init :: tracker where
  "init = \<lparr>cap = None, num_frames = None, frame = None, dx = None, dy = None,
           orig_image = None, noise_kernel = None, roi_pupil = None, roi_refle = None\<rparr>"

section \<open>Python primitives\<close>

text \<open>\<^verbatim>\<open>int(x)\<close> on a float truncates towards zero.\<close>

definition py_int :: "real \<Rightarrow> int" where
  "py_int x = (if 0 \<le> x then \<lfloor>x\<rfloor> else \<lceil>x\<rceil>)"

text \<open>\<^verbatim>\<open>xs[i]\<close>: a negative index counts from the end; out of range is \<^verbatim>\<open>IndexError\<close>.\<close>

definition py_index :: "'a list \<Rightarrow> int \<Rightarrow> 'a option" where
  "py_index xs i =
     (let n = int (length xs) in
      if 0 \<le> i \<and> i < n then Some (xs ! nat i)
      else if - n \<le> i \<and> i < 0 then Some (xs ! nat (n + i))
      else None)"

text \<open>\<^verbatim>\<open>xs[a:b]\<close>: negative bounds count from the end, all bounds are clipped.\<close>

definition py_slice :: "int \<Rightarrow> int \<Rightarrow> 'a list \<Rightarrow> 'a list" where
  "py_slice a b xs =
     (let n = int (length xs);
          s = (if a < 0 then max (a + n) 0 else min a n);
          e = (if b < 0 then max (b + n) 0 else min b n)
      in if s < e then take (nat (e - s)) (drop (nat s) xs) else [])"

text \<open>\<^verbatim>\<open>img[y0:y1, x0:x1]\<close> on an array of rows.\<close>

definition crop :: "image \<Rightarrow> roi \<Rightarrow> image" where
  "crop img r = (case r of ((x0, y0), (x1, y1)) \<Rightarrow> map (py_slice x0 x1) (py_slice y0 y1 img))"

text \<open>
  \<^verbatim>\<open>c[:, :, 0] += dx; c[:, :, 1] += dy\<close> on an array of points. The contours of the library
  are arrays of 32-bit signed integers and the sum is stored in place: an offset that fits
  64 bits is added and the sum wraps around to 32 bits; an offset that does not fit 64 bits
  cannot be stored into the array and the addition raises \<^verbatim>\<open>TypeError\<close>.
\<close>

definition wrap32 :: "int \<Rightarrow> int" where
  "wrap32 v = (v + 2 ^ 31) mod 2 ^ 32 - 2 ^ 31"

definition fits64 :: "int \<Rightarrow> bool" where
  "fits64 v = (- (2 ^ 63) \<le> v \<and> v < 2 ^ 63)"

definition translate :: "int \<Rightarrow> int \<Rightarrow> contour \<Rightarrow> contour" where
  "translate ox oy c = map (\<lambda>(x, y). (wrap32 (x + ox), wrap32 (y + oy))) c"

text \<open>An array without rows or without columns, which the blur of the library rejects.\<close>

definition empty_image :: "image \<Rightarrow> bool" where
  "empty_image im = (im = [] \<or> hd im = [])"

definition ones3 :: kernel where
  "ones3 = [[1, 1, 1], [1, 1, 1], [1, 1, 1]]"

section \<open>Frames\<close>

text \<open>
  \<^verbatim>\<open>next_frame\<close> and \<^verbatim>\<open>load_first_frame\<close> call each other: at the end of the video
  \<^verbatim>\<open>next_frame\<close> rewinds, clears both regions and loads the first frame again before it
  raises \<^verbatim>\<open>EOFError\<close>. On a capture without frames that recursion only stops at Python's
  recursion limit; the first argument below is the depth that is left, and reaching it is
  the \<^verbatim>\<open>RuntimeError\<close> of the interpreter. The call \<^verbatim>\<open>self.app.load_video(self.frame)\<close>
  only paints the window and is left out.
\<close>

fun next_frame :: "nat \<Rightarrow> cv \<Rightarrow> tracker \<Rightarrow> unit outcome"
  and load_first_frame :: "nat \<Rightarrow> cv \<Rightarrow> tracker \<Rightarrow> unit outcome" where
  "next_frame 0 lib st = (Inl RuntimeError, st)"
| "next_frame (Suc d) lib st =
     (case cap st of
        None \<Rightarrow> (Inl IOError, st)
      | Some c \<Rightarrow>
          (case cap_read c of
             (Some next, c') \<Rightarrow>
               (let fr = resize lib next 0.5 0.5
                in (Inr (), st\<lparr>cap := Some c', orig_image := Some fr, frame := Some fr\<rparr>))
           | (None, c') \<Rightarrow>
               (let st1 = st\<lparr>cap := Some (cap_set_pos c' 0),
                              roi_pupil := None, roi_refle := None\<rparr>
                in case load_first_frame d lib st1 of
                     (Inl e, st2) \<Rightarrow> (Inl e, st2)
                   | (Inr u, st2) \<Rightarrow> (Inl EOFError, st2))))"
| "load_first_frame d lib st =
     (case next_frame d lib st of
        (Inl e, st1) \<Rightarrow> (Inl e, st1)
      | (Inr u, st1) \<Rightarrow>
          (case cap st1 of
             None \<Rightarrow> (Inl AttributeError, st1)
           | Some c \<Rightarrow> (Inr (), st1\<lparr>cap := Some (cap_set_pos c 0)\<rparr>)))"

definition load_video :: "nat \<Rightarrow> cv \<Rightarrow> capture \<Rightarrow> tracker \<Rightarrow> unit outcome" where
  "load_video d lib c st =
     load_first_frame d lib
       (st\<lparr>cap := Some c, num_frames := Some (cap_frame_count c),
           noise_kernel := Some ones3\<rparr>)"

definition get_frame :: "tracker \<Rightarrow> image option" where
  "get_frame st = (case frame st of Some f \<Rightarrow> Some f | None \<Rightarrow> None)"

definition get_orig_frame :: "tracker \<Rightarrow> image outcome" where
  "get_orig_frame st =
     (case orig_image st of
        Some orig \<Rightarrow> (Inr orig, st\<lparr>frame := Some orig, roi_pupil := None, roi_refle := None\<rparr>)
      | None \<Rightarrow> (Inl AttributeError, st))"

section \<open>Preprocessing and the pupil search\<close>

text \<open>
  \<^verbatim>\<open>process_image\<close> assigns \<^verbatim>\<open>self.dx\<close> and \<^verbatim>\<open>self.dy\<close> before it touches the image, so the
  offsets are stored also when the image is missing: subscripting \<^verbatim>\<open>None\<close> is a
  \<^verbatim>\<open>TypeError\<close>, and the library rejects a missing image. \<^verbatim>\<open>cv2.GaussianBlur\<close> also
  rejects an empty image, which is what a region outside the frame is cropped to.
\<close>

definition process_image :: "cv \<Rightarrow> image option \<Rightarrow> roi option \<Rightarrow> tracker \<Rightarrow> gray outcome" where
  "process_image lib img r st =
     (case r of
        Some rr \<Rightarrow>
          (let st1 = st\<lparr>dx := Some (fst (fst rr)), dy := Some (snd (fst rr))\<rparr>
           in case img of
                None \<Rightarrow> (Inl TypeError, st1)
              | Some im \<Rightarrow>
                  (let roi_image = crop im rr in
                   if empty_image roi_image then (Inl CvError, st1)
                   else
                     (let gauss = GaussianBlur lib roi_image
                      in (Inr (cvtColor lib gauss), st1))))
      | None \<Rightarrow>
          (let st1 = st\<lparr>dx := Some 0, dy := Some 0\<rparr>
           in case img of
                None \<Rightarrow> (Inl CvError, st1)
              | Some im \<Rightarrow>
                  (if empty_image im then (Inl CvError, st1)
                   else
                     (let gauss = GaussianBlur lib im
                      in (Inr (cvtColor lib gauss), st1)))))"

text \<open>
  The body of the loop over the contours of \<^verbatim>\<open>find_pupils\<close>, with the list built so far. The
  area that is tested is the area of the contour; what is appended is its hull, moved by the
  offsets.
\<close>

fun find_pupils_loop ::
  "cv \<Rightarrow> int \<Rightarrow> int \<Rightarrow> contour list \<Rightarrow> contour list \<Rightarrow> error + contour list" where
  "find_pupils_loop lib ox oy [] found_pupils = Inr found_pupils"
| "find_pupils_loop lib ox oy (cnt # rest) found_pupils =
     (let area = contourArea lib cnt in
      if area = 0 then find_pupils_loop lib ox oy rest found_pupils
      else if \<not> (1000 < area \<and> area < 5000) then find_pupils_loop lib ox oy rest found_pupils
      else
        (let hull' = convexHull lib cnt in
         if length hull' < 5 then find_pupils_loop lib ox oy rest found_pupils
         else
           (let circumference = arcLength lib hull' True;
                circularity = circumference ^ 2 / (4 * pi * area)
            in if circularity \<ge> 1.6 then find_pupils_loop lib ox oy rest found_pupils
               else if \<not> (fits64 ox \<and> fits64 oy) then Inl TypeError
               else find_pupils_loop lib ox oy rest
                      (found_pupils @ [translate ox oy hull']))))"

definition find_pupils :: "cv \<Rightarrow> roi option \<Rightarrow> tracker \<Rightarrow> contour list outcome" where
  "find_pupils lib r st =
     (case process_image lib (frame st) r st of
        (Inl e, st1) \<Rightarrow> (Inl e, st1)
      | (Inr grayed, st1) \<Rightarrow>
          (let thresh_pupil = threshold lib grayed 45 255;
               filtered_pupil = morphologyEx lib thresh_pupil (noise_kernel st1) 4;
               contours_pupil = findContours lib filtered_pupil
           in case (dx st1, dy st1) of
                (Some ox, Some oy) \<Rightarrow>
                  (if length contours_pupil \<noteq> 0
                   then (case find_pupils_loop lib ox oy contours_pupil [] of
                           Inl e \<Rightarrow> (Inl e, st1)
                         | Inr found_pupils \<Rightarrow> (Inr found_pupils, st1))
                   else (Inr [], st1))
              | _ \<Rightarrow> (Inl TypeError, st1)))"

section \<open>Drawing and tracking the pupil\<close>

definition draw_pupil ::
  "cv \<Rightarrow> int option \<Rightarrow> roi option \<Rightarrow> bool \<Rightarrow> tracker \<Rightarrow> unit outcome" where
  "draw_pupil lib index r verbose st =
     (let index' = (case index of None \<Rightarrow> 0 | Some i \<Rightarrow> i) in
      case find_pupils lib r st of
        (Inl e, st1) \<Rightarrow> (Inl e, st1)
      | (Inr cnt_list, st1) \<Rightarrow>
          (if length cnt_list > 0
           then (case py_index cnt_list index' of
                   None \<Rightarrow> (Inl IndexError, st1)
                 | Some cnt \<Rightarrow>
                     (let ellipse' = fitEllipse lib cnt;
                          cx = py_int (fst (fst ellipse'));
                          cy = py_int (snd (fst ellipse'))
                      in case frame st1 of
                           None \<Rightarrow> (Inl CvError, st1)
                         | Some f \<Rightarrow>
                             (let f1 = circle lib f (cx, cy) 2 (255, 255, 255);
                                  f2 = (if verbose
                                        then rectangle lib
                                               (ellipse lib
                                                  (drawContours lib f1 (map (\<lambda>p. [p]) cnt)
                                                     (- 1) (0, 0, 255) 2)
                                                  ellipse' (0, 255, 100) 1)
                                               (cx - 100, cy - 100) (cx + 100, cy + 100)
                                               (255, 255, 255)
                                        else f1)
                              in (Inr (),
                                  st1\<lparr>frame := Some f2,
                                      roi_pupil :=
                                        Some ((cx - 100, cy - 100), (cx + 100, cy + 100))\<rparr>))))
           else (Inl AttributeError, st1)))"

definition track_pupil :: "cv \<Rightarrow> tracker \<Rightarrow> unit outcome" where
  "track_pupil lib st =
     (case roi_pupil st of
        Some r \<Rightarrow>
          (case draw_pupil lib None (Some r) True st of
             (Inl e, st1) \<Rightarrow>
               (if e = IndexError then (Inr (), st1)
                else if e = AttributeError then (Inr (), st1)
                else (Inl e, st1))
           | (Inr u, st1) \<Rightarrow> (Inr (), st1))
      | None \<Rightarrow> (Inr (), st))"

section \<open>The reflection search, drawing and tracking\<close>

text \<open>
  The loop of \<^verbatim>\<open>find_refle\<close>. Its arguments are the \<^verbatim>\<open>roi\<close> parameter, the field
  \<^verbatim>\<open>self.roi_refle\<close> and the offsets. The contour is moved in place before its rectangle
  is fitted. \<^verbatim>\<open>h/w\<close> divides floats, which raises \<^verbatim>\<open>ZeroDivisionError\<close> on a zero width;
  subscripting a missing \<^verbatim>\<open>self.roi_refle\<close> is a \<^verbatim>\<open>TypeError\<close>.
\<close>

fun find_refle_loop ::
  "cv \<Rightarrow> roi option \<Rightarrow> roi option \<Rightarrow> int \<Rightarrow> int \<Rightarrow> contour list \<Rightarrow> contour list
     \<Rightarrow> error + contour list" where
  "find_refle_loop lib r rr ox oy [] found_reflections = Inr found_reflections"
| "find_refle_loop lib r rr ox oy (cnt # rest) found_reflections =
     (let area = contourArea lib cnt in
      if area = 0 then find_refle_loop lib r rr ox oy rest found_reflections
      else if \<not> (25 < area \<and> area < 500)
      then find_refle_loop lib r rr ox oy rest found_reflections
      else if \<not> (fits64 ox \<and> fits64 oy) then Inl TypeError
      else
        (let cnt' = translate ox oy cnt;
             rect = minAreaRect lib cnt';
             w = fst (fst (snd rect));
             h = snd (fst (snd rect))
         in if w = 0 then Inl ZeroDivisionError
            else
              (let squareness = h / w in
               if \<not> (0.5 < squareness \<and> squareness < 2)
               then find_refle_loop lib r rr ox oy rest found_reflections
               else
                 (case r of
                    None \<Rightarrow> find_refle_loop lib r rr ox oy rest (found_reflections @ [cnt'])
                  | Some given \<Rightarrow>
                      (let cx = py_int (fst (fst rect));
                           cy = py_int (snd (fst rect))
                       in case rr of
                            None \<Rightarrow> Inl TypeError
                          | Some stored \<Rightarrow>
                              (if \<not> (fst (fst stored) < cx \<and> cx < fst (snd stored))
                                  \<or> \<not> (snd (fst stored) < cy \<and> cy < snd (snd stored))
                               then find_refle_loop lib r rr ox oy rest found_reflections
                               else find_refle_loop lib r rr ox oy rest
                                      (found_reflections @ [cnt'])))))))"

definition find_refle :: "cv \<Rightarrow> roi option \<Rightarrow> tracker \<Rightarrow> contour list outcome" where
  "find_refle lib r st =
     (case process_image lib (frame st) (roi_pupil st) st of
        (Inl e, st1) \<Rightarrow> (Inl e, st1)
      | (Inr grayed, st1) \<Rightarrow>
          (let thresh_refle = threshold lib grayed 200 255;
               filtered_refle = morphologyEx lib thresh_refle (noise_kernel st1) 2;
               contours_refle = findContours lib filtered_refle
           in case (dx st1, dy st1) of
                (Some ox, Some oy) \<Rightarrow>
                  (if length contours_refle \<noteq> 0
                   then (case find_refle_loop lib r (roi_refle st1) ox oy contours_refle [] of
                           Inl e \<Rightarrow> (Inl e, st1)
                         | Inr found \<Rightarrow> (Inr found, st1))
                   else (Inr [], st1))
              | _ \<Rightarrow> (Inl TypeError, st1)))"

definition draw_refle ::
  "cv \<Rightarrow> int option \<Rightarrow> roi option \<Rightarrow> bool \<Rightarrow> tracker \<Rightarrow> unit outcome" where
  "draw_refle lib index r verbose st =
     (let index' = (case index of None \<Rightarrow> 0 | Some i \<Rightarrow> i) in
      case find_refle lib r st of
        (Inl e, st1) \<Rightarrow> (Inl e, st1)
      | (Inr cnt_list, st1) \<Rightarrow>
          (if length cnt_list > 0
           then (case py_index cnt_list index' of
                   None \<Rightarrow> (Inl IndexError, st1)
                 | Some cnt \<Rightarrow>
                     (let rect = minAreaRect lib cnt;
                          box = map (\<lambda>(x, y). (py_int x, py_int y)) (boxPoints lib rect);
                          cx = py_int (fst (fst rect));
                          cy = py_int (snd (fst rect));
                          st2 = st1\<lparr>roi_refle :=
                                      Some ((cx - 15, cy - 15), (cx + 15, cy + 15))\<rparr>
                      in case frame st2 of
                           None \<Rightarrow> (Inl CvError, st2)
                         | Some f \<Rightarrow>
                             (let f1 = circle lib f (cx, cy) 2 (100, 100, 100);
                                  f2 = (if verbose
                                        then drawContours lib
                                               (drawContours lib
                                                  (rectangle lib f1 (cx - 15, cy - 15)
                                                     (cx + 15, cy + 15) (255, 255, 255))
                                                  (map (\<lambda>p. [p]) cnt) (- 1) (0, 0, 255) 2)
                                               [box] 0 (0, 255, 100) 1
                                        else f1)
                              in (Inr (), st2\<lparr>frame := Some f2\<rparr>))))
           else (Inl AttributeError, st1)))"

definition track_refle :: "cv \<Rightarrow> tracker \<Rightarrow> unit outcome" where
  "track_refle lib st =
     (case roi_refle st of
        Some r \<Rightarrow>
          (case draw_refle lib None (Some r) True st of
             (Inl e, st1) \<Rightarrow>
               (if e = IndexError then (Inr (), st1)
                else if e = AttributeError then (Inr (), st1)
                else (Inl e, st1))
           | (Inr u, st1) \<Rightarrow> (Inr (), st1))
      | None \<Rightarrow> (Inr (), st))"

section \<open>Sequences of operations\<close>

datatype op =
    NextFrame | LoadVideo capture | GetOrigFrame
  | FindPupils "roi option" | DrawPupil "int option" "roi option" bool | TrackPupil
  | FindRefle "roi option" | DrawRefle "int option" "roi option" bool | TrackRefle

text \<open>The tracker after one call, whether the call returned or raised.\<close>

fun step :: "nat \<Rightarrow> cv \<Rightarrow> op \<Rightarrow> tracker \<Rightarrow> tracker" where
  "step d lib NextFrame st = snd (next_frame d lib st)"
| "step d lib (LoadVideo c) st = snd (load_video d lib c st)"
| "step d lib GetOrigFrame st = snd (get_orig_frame st)"
| "step d lib (FindPupils r) st = snd (find_pupils lib r st)"
| "step d lib (DrawPupil i r v) st = snd (draw_pupil lib i r v st)"
| "step d lib TrackPupil st = snd (track_pupil lib st)"
| "step d lib (FindRefle r) st = snd (find_refle lib r st)"
| "step d lib (DrawRefle i r v) st = snd (draw_refle lib i r v st)"
| "step d lib TrackRefle st = snd (track_refle lib st)"

definition run :: "nat \<Rightarrow> cv \<Rightarrow> op list \<Rightarrow> tracker \<Rightarrow> tracker" where
  "run d lib ops st = fold (step d lib) ops st"

definition roi_width :: "roi \<Rightarrow> int" where
  "roi_width r = fst (snd r) - fst (fst r)"

definition roi_height :: "roi \<Rightarrow> int" where
  "roi_height r = snd (snd r) - snd (fst r)"

definition roi_centre :: "roi \<Rightarrow> real \<times> real" where
  "roi_centre r =
     ((real_of_int (fst (fst r)) + real_of_int (fst (snd r))) / 2,
      (real_of_int (snd (fst r)) + real_of_int (snd (snd r))) / 2)"

definition strictly_inside :: "roi \<Rightarrow> real \<times> real \<Rightarrow> bool" where
  "strictly_inside r p =
     (real_of_int (fst (fst r)) < fst p \<and> fst p < real_of_int (fst (snd r))
      \<and> real_of_int (snd (fst r)) < snd p \<and> snd p < real_of_int (snd (snd r)))"

definition roi_sizes :: "tracker \<Rightarrow> bool" where
  "roi_sizes st =
     ((case roi_pupil st of None \<Rightarrow> True
       | Some r \<Rightarrow> roi_width r = 200 \<and> roi_height r = 200)
      \<and> (case roi_refle st of None \<Rightarrow> True
         | Some r \<Rightarrow> roi_width r = 30 \<and> roi_height r = 30))"

section \<open>A sample instance of the image library\<close>

text \<open>
  For concrete runs: an instance whose contour finder reports a given list of contours, with
  the geometry computed as the library does on convex contours with axis-parallel boxes
  (area by the shoelace formula, length of the closed polygon, box from the extreme
  coordinates); the filters keep the image and nothing is painted.
\<close>

fun edges :: "point \<Rightarrow> contour \<Rightarrow> (point \<times> point) list" where
  "edges p0 [] = []"
| "edges p0 [p] = [(p, p0)]"
| "edges p0 (p # q # ps) = (p, q) # edges p0 (q # ps)"

definition closed_edges :: "contour \<Rightarrow> (point \<times> point) list" where
  "closed_edges c = (case c of [] \<Rightarrow> [] | p # ps \<Rightarrow> edges p c)"

definition shoelace :: "contour \<Rightarrow> real" where
  "shoelace c =
     \<bar>real_of_int (sum_list (map (\<lambda>e. fst (fst e) * snd (snd e) - fst (snd e) * snd (fst e))
                                (closed_edges c)))\<bar> / 2"

definition perimeter :: "contour \<Rightarrow> real" where
  "perimeter c =
     sum_list (map (\<lambda>e. sqrt (real_of_int ((fst (snd e) - fst (fst e))\<^sup>2
                                           + (snd (snd e) - snd (fst e))\<^sup>2)))
                 (closed_edges c))"

fun lowest :: "int list \<Rightarrow> int" where
  "lowest [] = 0"
| "lowest [x] = x"
| "lowest (x # y # zs) = min x (lowest (y # zs))"

fun highest :: "int list \<Rightarrow> int" where
  "highest [] = 0"
| "highest [x] = x"
| "highest (x # y # zs) = max x (highest (y # zs))"

definition box_fit :: "contour \<Rightarrow> rotated" where
  "box_fit c =
     (let x0 = lowest (map fst c); x1 = highest (map fst c);
          y0 = lowest (map snd c); y1 = highest (map snd c)
      in (((real_of_int x0 + real_of_int x1) / 2, (real_of_int y0 + real_of_int y1) / 2),
          (real_of_int (x1 - x0), real_of_int (y1 - y0)), 0))"

definition box_corners :: "rotated \<Rightarrow> (real \<times> real) list" where
  "box_corners b =
     (let cx = fst (fst b); cy = snd (fst b);
          w = fst (fst (snd b)); h = snd (fst (snd b))
      in [(cx - w / 2, cy + h / 2), (cx - w / 2, cy - h / 2),
          (cx + w / 2, cy - h / 2), (cx + w / 2, cy + h / 2)])"

fun every_other :: "'a list \<Rightarrow> 'a list" where
  "every_other [] = []"
| "every_other [x] = [x]"
| "every_other (x # y # zs) = x # every_other zs"

definition sample_cv :: "contour list \<Rightarrow> cv" where
  "sample_cv cs =
     \<lparr>resize = (\<lambda>im fx fy. map every_other (every_other im)),
      GaussianBlur = (\<lambda>im. im),
      cvtColor = map (map (\<lambda>p. (fst p + fst (snd p) + snd (snd p)) div 3)),
      threshold = (\<lambda>g t m. map (map (\<lambda>v. if t < v then m else 0)) g),
      morphologyEx = (\<lambda>g k n. g),
      findContours = (\<lambda>g. cs),
      contourArea = shoelace,
      convexHull = (\<lambda>c. c),
      arcLength = (\<lambda>c closed. perimeter c),
      minAreaRect = box_fit,
      fitEllipse = box_fit,
      boxPoints = box_corners,
      circle = (\<lambda>im p k col. im),
      drawContours = (\<lambda>im cs' i col k. im),
      ellipse = (\<lambda>im e col k. im),
      rectangle = (\<lambda>im p q col. im)\<rparr>"

definition sample_frame :: image where
  "sample_frame = replicate 240 (replicate 320 (0, 0, 0))"

definition sample_state :: "roi option \<Rightarrow> roi option \<Rightarrow> tracker" where
  "sample_state p q =
     \<lparr>cap = None, num_frames = None, frame = Some sample_frame, dx = None, dy = None,
      orig_image = Some sample_frame, noise_kernel = Some ones3,
      roi_pupil = p, roi_refle = q\<rparr>"

definition octagon :: contour where
  "octagon = [(15, 0), (45, 0), (60, 20), (60, 40), (45, 60), (15, 60), (0, 40), (0, 20)]"

definition octagon2 :: contour where
  "octagon2 = [(115, 100), (145, 100), (160, 120), (160, 140), (145, 160), (115, 160),
               (100, 140), (100, 120)]"

definition bright_square :: contour where
  "bright_square = [(110, 110), (110, 120), (120, 120), (120, 110)]"

definition odd_square :: contour where
  "odd_square = [(110, 110), (110, 119), (119, 119), (119, 110)]"

definition cropped_square :: contour where
  "cropped_square = [(10, 10), (10, 20), (20, 20), (20, 10)]"

text \<open>
  The same instance with the hulls of contours that are not convex given in a table, and an
  octagon with a notch cut into one side together with its hull, the octagon.
\<close>

definition hull_cv :: "(contour \<times> contour) list \<Rightarrow> contour list \<Rightarrow> cv" where
  "hull_cv hulls cs =
     (sample_cv cs)\<lparr>convexHull := (\<lambda>c. case map_of hulls c of None \<Rightarrow> c | Some h \<Rightarrow> h)\<rparr>"

definition notched :: contour where
  "notched = [(20, 0), (40, 45), (60, 0), (80, 15), (80, 65), (60, 80), (20, 80), (0, 65),
              (0, 15)]"

definition notched_hull :: contour where
  "notched_hull = [(20, 0), (60, 0), (80, 15), (80, 65), (60, 80), (20, 80), (0, 65), (0, 15)]"

section \<open>Derived notions\<close>

text \<open>The offsets that \<^verbatim>\<open>process_image\<close> stores, and the image it hands to the filters.\<close>

definition offset :: "roi option \<Rightarrow> point" where
  "offset r = (case r of None \<Rightarrow> (0, 0) | Some rr \<Rightarrow> fst rr)"

definition cropped :: "image \<Rightarrow> roi option \<Rightarrow> image" where
  "cropped im r = (case r of None \<Rightarrow> im | Some rr \<Rightarrow> crop im rr)"

definition pupil_contours :: "cv \<Rightarrow> image \<Rightarrow> roi option \<Rightarrow> kernel option \<Rightarrow> contour list" where
  "pupil_contours lib im r k =
     findContours lib
       (morphologyEx lib (threshold lib (cvtColor lib (GaussianBlur lib (cropped im r))) 45 255)
          k 4)"

definition refle_contours :: "cv \<Rightarrow> image \<Rightarrow> roi option \<Rightarrow> kernel option \<Rightarrow> contour list" where
  "refle_contours lib im r k =
     findContours lib
       (morphologyEx lib (threshold lib (cvtColor lib (GaussianBlur lib (cropped im r))) 200 255)
          k 2)"

definition pupil_accept :: "cv \<Rightarrow> contour \<Rightarrow> bool" where
  "pupil_accept lib cnt =
     (contourArea lib cnt \<noteq> 0 \<and> 1000 < contourArea lib cnt \<and> contourArea lib cnt < 5000
      \<and> 5 \<le> length (convexHull lib cnt)
      \<and> (arcLength lib (convexHull lib cnt) True)\<^sup>2 / (4 * pi * contourArea lib cnt) < 1.6)"

definition refle_shape :: "cv \<Rightarrow> contour \<Rightarrow> contour \<Rightarrow> bool" where
  "refle_shape lib c cnt =
     (25 < contourArea lib cnt \<and> contourArea lib cnt < 500
      \<and> fst (fst (snd (minAreaRect lib c))) \<noteq> 0
      \<and> 1 / 2 < snd (fst (snd (minAreaRect lib c))) / fst (fst (snd (minAreaRect lib c)))
      \<and> snd (fst (snd (minAreaRect lib c))) / fst (fst (snd (minAreaRect lib c))) < 2)"

definition centre_in :: "roi \<Rightarrow> rotated \<Rightarrow> bool" where
  "centre_in stored rect =
     (fst (fst stored) < py_int (fst (fst rect)) \<and> py_int (fst (fst rect)) < fst (snd stored)
      \<and> snd (fst stored) < py_int (snd (fst rect)) \<and> py_int (snd (fst rect)) < snd (snd stored))"

definition default_index :: "int option \<Rightarrow> int" where
  "default_index index = (case index of None \<Rightarrow> 0 | Some i \<Rightarrow> i)"

definition around :: "int \<Rightarrow> real \<times> real \<Rightarrow> roi" where
  "around k p =
     ((py_int (fst p) - k, py_int (snd p) - k), (py_int (fst p) + k, py_int (snd p) + k))"

text \<open>
  The candidate that a draw selects: the element of the search result at the index, when the
  search returns and the index is in range. A draw returns exactly when it selects one.
\<close>

definition selected :: "error + contour list \<Rightarrow> int option \<Rightarrow> contour option" where
  "selected res index =
     (case res of Inl e \<Rightarrow> None | Inr found \<Rightarrow> py_index found (default_index index))"

text \<open>The pupil, or the reflection, that a call draws in a state, if it draws one.\<close>

fun drawn_pupil :: "cv \<Rightarrow> op \<Rightarrow> tracker \<Rightarrow> contour option" where
  "drawn_pupil lib (DrawPupil i r v) st = selected (fst (find_pupils lib r st)) i"
| "drawn_pupil lib TrackPupil st =
     (case roi_pupil st of
        None \<Rightarrow> None
      | Some r \<Rightarrow> selected (fst (find_pupils lib (Some r) st)) None)"
| "drawn_pupil lib x st = None"

fun drawn_refle :: "cv \<Rightarrow> op \<Rightarrow> tracker \<Rightarrow> contour option" where
  "drawn_refle lib (DrawRefle i r v) st = selected (fst (find_refle lib r st)) i"
| "drawn_refle lib TrackRefle st =
     (case roi_refle st of
        None \<Rightarrow> None
      | Some r \<Rightarrow> selected (fst (find_refle lib (Some r) st)) None)"
| "drawn_refle lib x st = None"

text \<open>
  The pupil, and the reflection, most recently drawn along a sequence of calls that starts in
  a state, given the one drawn before the sequence.
\<close>

fun last_pupil :: "nat \<Rightarrow> cv \<Rightarrow> op list \<Rightarrow> tracker \<Rightarrow> contour option \<Rightarrow> contour option" where
  "last_pupil d lib [] st g = g"
| "last_pupil d lib (x # xs) st g =
     last_pupil d lib xs (step d lib x st)
       (case drawn_pupil lib x st of None \<Rightarrow> g | Some c \<Rightarrow> Some c)"

fun last_refle :: "nat \<Rightarrow> cv \<Rightarrow> op list \<Rightarrow> tracker \<Rightarrow> contour option \<Rightarrow> contour option" where
  "last_refle d lib [] st g = g"
| "last_refle d lib (x # xs) st g =
     last_refle d lib xs (step d lib x st)
       (case drawn_refle lib x st of None \<Rightarrow> g | Some c \<Rightarrow> Some c)"

text \<open>A slot that is set holds the box around the candidate most recently drawn.\<close>

definition pupil_slot_ok :: "cv \<Rightarrow> tracker \<Rightarrow> contour option \<Rightarrow> bool" where
  "pupil_slot_ok lib st g =
     (case roi_pupil st of
        None \<Rightarrow> True
      | Some r \<Rightarrow>
          (case g of None \<Rightarrow> False
           | Some cnt \<Rightarrow> r = around 100 (fst (fitEllipse lib cnt))))"

definition refle_slot_ok :: "cv \<Rightarrow> tracker \<Rightarrow> contour option \<Rightarrow> bool" where
  "refle_slot_ok lib st g =
     (case roi_refle st of
        None \<Rightarrow> True
      | Some r \<Rightarrow>
          (case g of None \<Rightarrow> False
           | Some cnt \<Rightarrow> r = around 15 (fst (minAreaRect lib cnt))))"

definition one_frame_capture :: capture where
  "one_frame_capture = \<lparr>frames = [sample_frame], pos = 0\<rparr>"

definition tracked_state :: tracker where
  "tracked_state =
     \<lparr>cap = Some one_frame_capture, num_frames = Some 1, frame = Some sample_frame,
      dx = Some 0, dy = Some 0, orig_image = Some sample_frame, noise_kernel = Some ones3,
      roi_pupil = Some ((0, 0), (200, 200)), roi_refle = Some ((100, 100), (130, 130))\<rparr>"

definition ended_state :: tracker where
  "ended_state = tracked_state\<lparr>cap := Some \<lparr>frames = [sample_frame], pos = Suc 0\<rparr>\<rparr>"

section \<open>Facts about the Python primitives\<close>

lemma py_int_gt: "a < py_int x \<Longrightarrow> real_of_int a < x"
  by (cases "0 \<le> x") (simp_all add: py_int_def less_floor_iff less_ceiling_iff)

lemma py_int_lt: "py_int x < b \<Longrightarrow> x < real_of_int b"
  by (cases "0 \<le> x") (simp_all add: py_int_def floor_less_iff ceiling_less_iff)

lemma py_index_None:
  "py_index xs i = None \<longleftrightarrow> (int (length xs) \<le> i \<or> i < - int (length xs))"
  by (auto simp: py_index_def Let_def)

lemma py_index_neg:
  "- int (length xs) \<le> i \<Longrightarrow> i < 0 \<Longrightarrow> py_index xs i = Some (xs ! nat (int (length xs) + i))"
  by (simp add: py_index_def Let_def)

lemma wrap32_id: "- (2 ^ 31) \<le> v \<Longrightarrow> v < 2 ^ 31 \<Longrightarrow> wrap32 v = v"
  by (simp add: wrap32_def mod_pos_pos_trivial)

lemma fits64_small: "fits64 0" "fits64 100"
  by (simp_all add: fits64_def)

lemma centre_in_inside: "centre_in stored rect \<Longrightarrow> strictly_inside stored (fst rect)"
  by (simp add: centre_in_def strictly_inside_def py_int_gt py_int_lt)

section \<open>Unfolded searches\<close>

lemma process_image_eq:
  "process_image lib img r st =
     (case img of
        None \<Rightarrow> Inl (if r = None then CvError else TypeError)
      | Some im \<Rightarrow>
          if empty_image (cropped im r) then Inl CvError
          else Inr (cvtColor lib (GaussianBlur lib (cropped im r))),
      st\<lparr>dx := Some (fst (offset r)), dy := Some (snd (offset r))\<rparr>)"
  by (simp add: process_image_def offset_def cropped_def Let_def split: option.splits)

lemma find_pupils_eq:
  "find_pupils lib r st =
     (case frame st of
        None \<Rightarrow> Inl (if r = None then CvError else TypeError)
      | Some im \<Rightarrow>
          if empty_image (cropped im r) then Inl CvError
          else find_pupils_loop lib (fst (offset r)) (snd (offset r))
                 (pupil_contours lib im r (noise_kernel st)) [],
      st\<lparr>dx := Some (fst (offset r)), dy := Some (snd (offset r))\<rparr>)"
  by (cases "frame st")
     (auto simp: find_pupils_def process_image_eq pupil_contours_def Let_def split: sum.splits)

lemma find_refle_eq:
  "find_refle lib r st =
     (case frame st of
        None \<Rightarrow> Inl (if roi_pupil st = None then CvError else TypeError)
      | Some im \<Rightarrow>
          if empty_image (cropped im (roi_pupil st)) then Inl CvError
          else find_refle_loop lib r (roi_refle st) (fst (offset (roi_pupil st)))
                 (snd (offset (roi_pupil st)))
                 (refle_contours lib im (roi_pupil st) (noise_kernel st)) [],
      st\<lparr>dx := Some (fst (offset (roi_pupil st))), dy := Some (snd (offset (roi_pupil st)))\<rparr>)"
  by (cases "frame st")
     (auto simp: find_refle_def process_image_eq refle_contours_def Let_def split: sum.splits)

section \<open>The loops\<close>

lemma find_pupils_loop_step:
  "find_pupils_loop lib ox oy (cnt # rest) found =
     (if pupil_accept lib cnt
      then (if fits64 ox \<and> fits64 oy
            then find_pupils_loop lib ox oy rest (found @ [translate ox oy (convexHull lib cnt)])
            else Inl TypeError)
      else find_pupils_loop lib ox oy rest found)"
  by (auto simp: pupil_accept_def Let_def)

lemma find_pupils_loop_exact:
  "find_pupils_loop lib ox oy cs found = Inr out \<Longrightarrow>
     out = found @ map (\<lambda>cnt. translate ox oy (convexHull lib cnt)) (filter (pupil_accept lib) cs)"
proof (induction cs arbitrary: found)
  case Nil
  then show ?case by simp
next
  case (Cons a cs)
  show ?case
  proof (cases "pupil_accept lib a")
    case True
    with Cons.prems
    have "find_pupils_loop lib ox oy cs (found @ [translate ox oy (convexHull lib a)]) = Inr out"
      by (simp add: find_pupils_loop_step del: find_pupils_loop.simps split: if_splits)
    from Cons.IH [OF this] True show ?thesis by simp
  next
    case False
    with Cons.prems have "find_pupils_loop lib ox oy cs found = Inr out"
      by (simp only: find_pupils_loop_step if_False)
    from Cons.IH [OF this] False show ?thesis by simp
  qed
qed

lemma find_pupils_loop_sound:
  "find_pupils_loop lib ox oy cs found = Inr out \<Longrightarrow> h \<in> set out \<Longrightarrow>
     h \<in> set found
     \<or> (\<exists>cnt. cnt \<in> set cs \<and> h = translate ox oy (convexHull lib cnt) \<and> pupil_accept lib cnt)"
  by (auto dest!: find_pupils_loop_exact)

lemma find_refle_loop_step:
  "find_refle_loop lib r rr ox oy (cnt # rest) found = Inr out \<Longrightarrow>
     find_refle_loop lib r rr ox oy rest found = Inr out
     \<or> (find_refle_loop lib r rr ox oy rest (found @ [translate ox oy cnt]) = Inr out
        \<and> refle_shape lib (translate ox oy cnt) cnt
        \<and> (r \<noteq> None \<longrightarrow>
             (\<exists>stored. rr = Some stored
                \<and> centre_in stored (minAreaRect lib (translate ox oy cnt)))))"
  by (auto simp: refle_shape_def centre_in_def Let_def split: if_splits option.splits)

lemma find_refle_loop_sound:
  "find_refle_loop lib r rr ox oy cs found = Inr out \<Longrightarrow> c \<in> set out \<Longrightarrow>
     c \<in> set found
     \<or> (\<exists>cnt. cnt \<in> set cs \<and> c = translate ox oy cnt \<and> refle_shape lib c cnt
          \<and> (r \<noteq> None \<longrightarrow> (\<exists>stored. rr = Some stored \<and> centre_in stored (minAreaRect lib c))))"
proof (induction cs arbitrary: found)
  case Nil
  then show ?case by simp
next
  case (Cons a cs)
  from find_refle_loop_step [OF Cons.prems(1)]
  show ?case
  proof (elim disjE conjE)
    assume "find_refle_loop lib r rr ox oy cs found = Inr out"
    from Cons.IH [OF this Cons.prems(2)] show ?thesis by auto
  next
    assume l: "find_refle_loop lib r rr ox oy cs (found @ [translate ox oy a]) = Inr out"
      and s: "refle_shape lib (translate ox oy a) a"
      and t: "r \<noteq> None \<longrightarrow>
                (\<exists>stored. rr = Some stored
                   \<and> centre_in stored (minAreaRect lib (translate ox oy a)))"
    from Cons.IH [OF l Cons.prems(2)] s t show ?thesis by auto
  qed
qed


lemma ratio_reciprocal:
  fixes w h :: real
  assumes a: "1 / 2 < h / w" and b: "h / w < 2"
  shows "1 / 2 < w / h \<and> w / h < 2"
proof -
  have r0: "0 < h / w" using a by linarith
  have i: "inverse (h / w) = w / h" by (rule inverse_divide)
  have "inverse 2 < inverse (h / w)" using less_imp_inverse_less [OF b r0] .
  moreover have "inverse (h / w) < inverse (1 / 2)"
    using less_imp_inverse_less [OF a] by simp
  ultimately show ?thesis unfolding i by simp
qed

section \<open>Facts about frames\<close>

lemma load_first_frame_rois:
  "roi_pupil (snd (load_first_frame d lib st)) = roi_pupil (snd (next_frame d lib st))
   \<and> roi_refle (snd (load_first_frame d lib st)) = roi_refle (snd (next_frame d lib st))"
  by (auto split: prod.splits sum.splits option.splits)

lemma next_frame_read:
  "cap st = Some c \<Longrightarrow> cap_read c = (Some img, c') \<Longrightarrow>
     next_frame (Suc d) lib st
     = (Inr (), st\<lparr>cap := Some c', orig_image := Some (resize lib img 0.5 0.5),
                    frame := Some (resize lib img 0.5 0.5)\<rparr>)"
  by (simp add: Let_def)

lemma next_frame_eof:
  "cap st = Some c \<Longrightarrow> cap_read c = (None, c') \<Longrightarrow>
     snd (next_frame (Suc d) lib st)
     = snd (load_first_frame d lib
              (st\<lparr>cap := Some (cap_set_pos c' 0), roi_pupil := None, roi_refle := None\<rparr>))"
  by (simp del: load_first_frame.simps add: Let_def split: prod.splits sum.splits)

lemma next_frame_rois:
  "(roi_pupil (snd (next_frame d lib st)) = roi_pupil st
      \<or> roi_pupil (snd (next_frame d lib st)) = None)
   \<and> (roi_refle (snd (next_frame d lib st)) = roi_refle st
      \<or> roi_refle (snd (next_frame d lib st)) = None)"
proof (induction d arbitrary: st)
  case 0
  show ?case by simp
next
  case (Suc d)
  show ?case
  proof (cases "cap st")
    case None
    then show ?thesis by simp
  next
    case (Some c)
    obtain a c' where rd: "cap_read c = (a, c')" by (cases "cap_read c")
    show ?thesis
    proof (cases a)
      case None
      let ?s = "st\<lparr>cap := Some (cap_set_pos c' 0), roi_pupil := None, roi_refle := None\<rparr>"
      from Some rd None
      have e: "snd (next_frame (Suc d) lib st) = snd (load_first_frame d lib ?s)"
        by (simp only: next_frame_eof)
      from Suc.IH [of ?s] load_first_frame_rois [of d lib ?s]
      show ?thesis unfolding e by simp
    next
      case (Some img)
      with \<open>cap st = Some c\<close> rd show ?thesis by (simp add: Let_def)
    qed
  qed
qed

lemma next_frame_eof_clears:
  assumes "cap st = Some c" and "cap_read c = (None, c')"
  shows "roi_pupil (snd (next_frame (Suc d) lib st)) = None
         \<and> roi_refle (snd (next_frame (Suc d) lib st)) = None"
proof -
  let ?s = "st\<lparr>cap := Some (cap_set_pos c' 0), roi_pupil := None, roi_refle := None\<rparr>"
  have e: "snd (next_frame (Suc d) lib st) = snd (load_first_frame d lib ?s)"
    using assms by (simp only: next_frame_eof)
  from next_frame_rois [of d lib ?s] load_first_frame_rois [of d lib ?s]
  show ?thesis unfolding e by simp
qed

section \<open>Drawing\<close>

lemma find_pupils_frame:
  "find_pupils lib r st = (Inr found, st1) \<Longrightarrow>
     (\<exists>f. frame st1 = Some f) \<and> roi_pupil st1 = roi_pupil st \<and> roi_refle st1 = roi_refle st"
  by (auto simp: find_pupils_eq split: option.splits if_splits)

lemma find_refle_frame:
  "find_refle lib r st = (Inr found, st1) \<Longrightarrow>
     (\<exists>f. frame st1 = Some f) \<and> roi_pupil st1 = roi_pupil st \<and> roi_refle st1 = roi_refle st"
  by (auto simp: find_refle_eq split: option.splits if_splits)

lemma find_pupils_slots:
  "roi_pupil (snd (find_pupils lib r st)) = roi_pupil st
   \<and> roi_refle (snd (find_pupils lib r st)) = roi_refle st"
  by (simp add: find_pupils_eq)

lemma find_refle_slots:
  "roi_pupil (snd (find_refle lib r st)) = roi_pupil st
   \<and> roi_refle (snd (find_refle lib r st)) = roi_refle st"
  by (simp add: find_refle_eq)

lemma draw_pupil_raises:
  "find_pupils lib r st = (Inl e, st1) \<Longrightarrow> draw_pupil lib index r v st = (Inl e, st1)"
  by (simp add: draw_pupil_def)

lemma draw_refle_raises:
  "find_refle lib r st = (Inl e, st1) \<Longrightarrow> draw_refle lib index r v st = (Inl e, st1)"
  by (simp add: draw_refle_def)

lemma draw_pupil_fst:
  assumes "find_pupils lib r st = (Inr found, st1)"
  shows "fst (draw_pupil lib index r v st) =
     (if found = [] then Inl AttributeError
      else case py_index found (default_index index) of
             None \<Rightarrow> Inl IndexError | Some cnt \<Rightarrow> Inr ())"
proof -
  from find_pupils_frame [OF assms] obtain f where "frame st1 = Some f" by auto
  with assms show ?thesis
    by (simp add: draw_pupil_def default_index_def Let_def split: option.splits)
qed

lemma draw_pupil_error_state:
  assumes "find_pupils lib r st = (Inr found, st1)"
    and "fst (draw_pupil lib index r v st) = Inl e"
  shows "snd (draw_pupil lib index r v st) = st1"
proof -
  from find_pupils_frame [OF assms(1)] obtain f where "frame st1 = Some f" by auto
  with assms show ?thesis
    by (simp add: draw_pupil_def default_index_def Let_def split: option.splits if_splits)
qed

lemma draw_pupil_selected:
  assumes "find_pupils lib r st = (Inr found, st1)"
    and "py_index found (default_index index) = Some cnt"
  shows "roi_pupil (snd (draw_pupil lib index r v st)) = Some (around 100 (fst (fitEllipse lib cnt)))
         \<and> roi_refle (snd (draw_pupil lib index r v st)) = roi_refle st"
proof -
  from find_pupils_frame [OF assms(1)] obtain f where "frame st1 = Some f"
    and "roi_refle st1 = roi_refle st" by auto
  moreover have "found \<noteq> []"
  proof
    assume e: "found = []"
    have "0 \<le> default_index index \<or> default_index index < 0" by linarith
    with e have "py_index found (default_index index) = None" by (simp add: py_index_None)
    with assms(2) show False by simp
  qed
  ultimately show ?thesis
    using assms
    by (simp add: draw_pupil_def default_index_def around_def Let_def)
qed

lemma draw_refle_fst:
  assumes "find_refle lib r st = (Inr found, st1)"
  shows "fst (draw_refle lib index r v st) =
     (if found = [] then Inl AttributeError
      else case py_index found (default_index index) of
             None \<Rightarrow> Inl IndexError | Some cnt \<Rightarrow> Inr ())"
proof -
  from find_refle_frame [OF assms] obtain f where "frame st1 = Some f" by auto
  with assms show ?thesis
    by (simp add: draw_refle_def default_index_def Let_def split: option.splits)
qed

lemma draw_refle_error_state:
  assumes "find_refle lib r st = (Inr found, st1)"
    and "fst (draw_refle lib index r v st) = Inl e"
  shows "snd (draw_refle lib index r v st) = st1"
proof -
  from find_refle_frame [OF assms(1)] obtain f where "frame st1 = Some f" by auto
  with assms show ?thesis
    by (simp add: draw_refle_def default_index_def Let_def split: option.splits if_splits)
qed

lemma draw_refle_selected:
  assumes "find_refle lib r st = (Inr found, st1)"
    and "py_index found (default_index index) = Some cnt"
  shows "roi_refle (snd (draw_refle lib index r v st))
           = Some (around 15 (fst (minAreaRect lib cnt)))
         \<and> roi_pupil (snd (draw_refle lib index r v st)) = roi_pupil st"
proof -
  from find_refle_frame [OF assms(1)] obtain f where "frame st1 = Some f"
    and "roi_pupil st1 = roi_pupil st" by auto
  moreover have "found \<noteq> []"
  proof
    assume e: "found = []"
    have "0 \<le> default_index index \<or> default_index index < 0" by linarith
    with e have "py_index found (default_index index) = None" by (simp add: py_index_None)
    with assms(2) show False by simp
  qed
  ultimately show ?thesis
    using assms
    by (simp add: draw_refle_def default_index_def around_def Let_def)
qed

lemma draw_pupil_cases:
  "(\<exists>e. fst (draw_pupil lib index r v st) = Inl e
        \<and> roi_pupil (snd (draw_pupil lib index r v st)) = roi_pupil st
        \<and> roi_refle (snd (draw_pupil lib index r v st)) = roi_refle st)
   \<or> (\<exists>found cnt. fst (find_pupils lib r st) = Inr found
        \<and> py_index found (default_index index) = Some cnt
        \<and> fst (draw_pupil lib index r v st) = Inr ()
        \<and> roi_pupil (snd (draw_pupil lib index r v st))
            = Some (around 100 (fst (fitEllipse lib cnt)))
        \<and> roi_refle (snd (draw_pupil lib index r v st)) = roi_refle st)"
proof (cases "find_pupils lib r st")
  case (Pair res st1)
  show ?thesis
  proof (cases res)
    case (Inl e)
    with Pair have "draw_pupil lib index r v st = (Inl e, st1)"
      by (simp add: draw_pupil_raises)
    with Pair find_pupils_slots [of lib r st] show ?thesis by simp
  next
    case (Inr found)
    with Pair have p: "find_pupils lib r st = (Inr found, st1)" by simp
    from find_pupils_frame [OF p]
    have s: "roi_pupil st1 = roi_pupil st" "roi_refle st1 = roi_refle st" by auto
    show ?thesis
    proof (cases "fst (draw_pupil lib index r v st)")
      case (Inl e)
      from draw_pupil_error_state [OF p Inl] s Inl show ?thesis by simp
    next
      case (Inr u)
      with draw_pupil_fst [OF p, of index v]
      obtain cnt where c: "py_index found (default_index index) = Some cnt"
        by (auto split: if_splits option.splits)
      from draw_pupil_selected [OF p c, of v] Inr c p show ?thesis by auto
    qed
  qed
qed

lemma draw_refle_cases:
  "(\<exists>e. fst (draw_refle lib index r v st) = Inl e
        \<and> roi_pupil (snd (draw_refle lib index r v st)) = roi_pupil st
        \<and> roi_refle (snd (draw_refle lib index r v st)) = roi_refle st)
   \<or> (\<exists>found cnt. fst (find_refle lib r st) = Inr found
        \<and> py_index found (default_index index) = Some cnt
        \<and> fst (draw_refle lib index r v st) = Inr ()
        \<and> roi_refle (snd (draw_refle lib index r v st))
            = Some (around 15 (fst (minAreaRect lib cnt)))
        \<and> roi_pupil (snd (draw_refle lib index r v st)) = roi_pupil st)"
proof (cases "find_refle lib r st")
  case (Pair res st1)
  show ?thesis
  proof (cases res)
    case (Inl e)
    with Pair have "draw_refle lib index r v st = (Inl e, st1)"
      by (simp add: draw_refle_raises)
    with Pair find_refle_slots [of lib r st] show ?thesis by simp
  next
    case (Inr found)
    with Pair have p: "find_refle lib r st = (Inr found, st1)" by simp
    from find_refle_frame [OF p]
    have s: "roi_pupil st1 = roi_pupil st" "roi_refle st1 = roi_refle st" by auto
    show ?thesis
    proof (cases "fst (draw_refle lib index r v st)")
      case (Inl e)
      from draw_refle_error_state [OF p Inl] s Inl show ?thesis by simp
    next
      case (Inr u)
      with draw_refle_fst [OF p, of index v]
      obtain cnt where c: "py_index found (default_index index) = Some cnt"
        by (auto split: if_splits option.splits)
      from draw_refle_selected [OF p c, of v] Inr c p show ?thesis by auto
    qed
  qed
qed

lemma py_index_Nil: "py_index [] i = None"
  by (simp add: py_index_def)

lemma draw_pupil_slot:
  "roi_pupil (snd (draw_pupil lib index r v st))
   = (case selected (fst (find_pupils lib r st)) index of
        None \<Rightarrow> roi_pupil st
      | Some cnt \<Rightarrow> Some (around 100 (fst (fitEllipse lib cnt))))"
proof (cases "find_pupils lib r st")
  case (Pair res st1)
  show ?thesis
  proof (cases res)
    case (Inl e)
    with Pair have "draw_pupil lib index r v st = (Inl e, st1)"
      by (simp add: draw_pupil_raises)
    with Pair Inl find_pupils_slots [of lib r st] show ?thesis by (simp add: selected_def)
  next
    case (Inr found)
    with Pair have p: "find_pupils lib r st = (Inr found, st1)" by simp
    from find_pupils_frame [OF p] have s: "roi_pupil st1 = roi_pupil st" by simp
    show ?thesis
    proof (cases "py_index found (default_index index)")
      case None
      with draw_pupil_fst [OF p, of index v]
      obtain e where e: "fst (draw_pupil lib index r v st) = Inl e"
        by (cases "found = []") simp_all
      from draw_pupil_error_state [OF p e] s None p show ?thesis
        by (simp add: selected_def)
    next
      case (Some cnt)
      from draw_pupil_selected [OF p Some, of v] Some p show ?thesis
        by (simp add: selected_def)
    qed
  qed
qed

lemma draw_refle_slot:
  "roi_refle (snd (draw_refle lib index r v st))
   = (case selected (fst (find_refle lib r st)) index of
        None \<Rightarrow> roi_refle st
      | Some cnt \<Rightarrow> Some (around 15 (fst (minAreaRect lib cnt))))"
proof (cases "find_refle lib r st")
  case (Pair res st1)
  show ?thesis
  proof (cases res)
    case (Inl e)
    with Pair have "draw_refle lib index r v st = (Inl e, st1)"
      by (simp add: draw_refle_raises)
    with Pair Inl find_refle_slots [of lib r st] show ?thesis by (simp add: selected_def)
  next
    case (Inr found)
    with Pair have p: "find_refle lib r st = (Inr found, st1)" by simp
    from find_refle_frame [OF p] have s: "roi_refle st1 = roi_refle st" by simp
    show ?thesis
    proof (cases "py_index found (default_index index)")
      case None
      with draw_refle_fst [OF p, of index v]
      obtain e where e: "fst (draw_refle lib index r v st) = Inl e"
        by (cases "found = []") simp_all
      from draw_refle_error_state [OF p e] s None p show ?thesis
        by (simp add: selected_def)
    next
      case (Some cnt)
      from draw_refle_selected [OF p Some, of v] Some p show ?thesis
        by (simp add: selected_def)
    qed
  qed
qed

lemma draw_pupil_returns:
  "fst (draw_pupil lib index r v st) = Inr ()
   \<longleftrightarrow> (\<exists>cnt. selected (fst (find_pupils lib r st)) index = Some cnt)"
proof (cases "find_pupils lib r st")
  case (Pair res st1)
  show ?thesis
  proof (cases res)
    case (Inl e)
    with Pair have "draw_pupil lib index r v st = (Inl e, st1)"
      by (simp add: draw_pupil_raises)
    with Pair Inl show ?thesis by (simp add: selected_def)
  next
    case (Inr found)
    with Pair have p: "find_pupils lib r st = (Inr found, st1)" by simp
    from draw_pupil_fst [OF p, of index v] p show ?thesis
      by (cases "found = []")
         (auto simp: selected_def py_index_Nil split: option.splits)
  qed
qed

lemma draw_refle_returns:
  "fst (draw_refle lib index r v st) = Inr ()
   \<longleftrightarrow> (\<exists>cnt. selected (fst (find_refle lib r st)) index = Some cnt)"
proof (cases "find_refle lib r st")
  case (Pair res st1)
  show ?thesis
  proof (cases res)
    case (Inl e)
    with Pair have "draw_refle lib index r v st = (Inl e, st1)"
      by (simp add: draw_refle_raises)
    with Pair Inl show ?thesis by (simp add: selected_def)
  next
    case (Inr found)
    with Pair have p: "find_refle lib r st = (Inr found, st1)" by simp
    from draw_refle_fst [OF p, of index v] p show ?thesis
      by (cases "found = []")
         (auto simp: selected_def py_index_Nil split: option.splits)
  qed
qed

lemma draw_pupil_other_slot:
  "roi_refle (snd (draw_pupil lib index r v st)) = roi_refle st"
  using draw_pupil_cases [of lib index r v st] by auto

lemma draw_refle_other_slot:
  "roi_pupil (snd (draw_refle lib index r v st)) = roi_pupil st"
  using draw_refle_cases [of lib index r v st] by auto

section \<open>Tracking\<close>

lemma track_pupil_eq:
  "track_pupil lib st =
     (case roi_pupil st of
        None \<Rightarrow> (Inr (), st)
      | Some r \<Rightarrow>
          (if fst (draw_pupil lib None (Some r) True st) \<in> {Inl IndexError, Inl AttributeError}
           then Inr ()
           else fst (draw_pupil lib None (Some r) True st),
           snd (draw_pupil lib None (Some r) True st)))"
  by (cases "roi_pupil st")
     (auto simp: track_pupil_def split: prod.splits sum.splits)

lemma track_refle_eq:
  "track_refle lib st =
     (case roi_refle st of
        None \<Rightarrow> (Inr (), st)
      | Some r \<Rightarrow>
          (if fst (draw_refle lib None (Some r) True st) \<in> {Inl IndexError, Inl AttributeError}
           then Inr ()
           else fst (draw_refle lib None (Some r) True st),
           snd (draw_refle lib None (Some r) True st)))"
  by (cases "roi_refle st")
     (auto simp: track_refle_def split: prod.splits sum.splits)

section \<open>Slots along a run\<close>

lemma around_size: "roi_width (around k p) = 2 * k \<and> roi_height (around k p) = 2 * k"
  by (simp add: roi_width_def roi_height_def around_def)

lemma load_video_rois:
  "(roi_pupil (snd (load_video d lib c st)) = roi_pupil st
      \<or> roi_pupil (snd (load_video d lib c st)) = None)
   \<and> (roi_refle (snd (load_video d lib c st)) = roi_refle st
      \<or> roi_refle (snd (load_video d lib c st)) = None)"
proof -
  let ?s = "st\<lparr>cap := Some c, num_frames := Some (cap_frame_count c),
               noise_kernel := Some ones3\<rparr>"
  have e: "load_video d lib c st = load_first_frame d lib ?s"
    by (simp only: load_video_def)
  from next_frame_rois [of d lib ?s] load_first_frame_rois [of d lib ?s]
  show ?thesis unfolding e by simp
qed

lemma step_pupil_slot:
  "roi_pupil (step d lib x st) = roi_pupil st \<or> roi_pupil (step d lib x st) = None
   \<or> (\<exists>cnt. roi_pupil (step d lib x st) = Some (around 100 (fst (fitEllipse lib cnt))))"
proof (cases x)
  case NextFrame
  with next_frame_rois [of d lib st] show ?thesis by auto
next
  case (LoadVideo c)
  with load_video_rois [of d lib c st] show ?thesis by auto
next
  case GetOrigFrame
  then show ?thesis by (simp add: get_orig_frame_def split: option.splits)
next
  case (FindPupils r)
  with find_pupils_slots [of lib r st] show ?thesis by simp
next
  case (DrawPupil i r v)
  with draw_pupil_cases [of lib i r v st] show ?thesis by auto
next
  case TrackPupil
  show ?thesis
  proof (cases "roi_pupil st")
    case None
    with TrackPupil show ?thesis by (simp add: track_pupil_eq)
  next
    case (Some r)
    with TrackPupil draw_pupil_cases [of lib None "Some r" True st] show ?thesis
      by (auto simp: track_pupil_eq)
  qed
next
  case (FindRefle r)
  with find_refle_slots [of lib r st] show ?thesis by simp
next
  case (DrawRefle i r v)
  with draw_refle_cases [of lib i r v st] show ?thesis by auto
next
  case TrackRefle
  show ?thesis
  proof (cases "roi_refle st")
    case None
    with TrackRefle show ?thesis by (simp add: track_refle_eq)
  next
    case (Some r)
    with TrackRefle draw_refle_cases [of lib None "Some r" True st] show ?thesis
      by (auto simp: track_refle_eq)
  qed
qed

lemma step_refle_slot:
  "roi_refle (step d lib x st) = roi_refle st \<or> roi_refle (step d lib x st) = None
   \<or> (\<exists>cnt. roi_refle (step d lib x st) = Some (around 15 (fst (minAreaRect lib cnt))))"
proof (cases x)
  case NextFrame
  with next_frame_rois [of d lib st] show ?thesis by auto
next
  case (LoadVideo c)
  with load_video_rois [of d lib c st] show ?thesis by auto
next
  case GetOrigFrame
  then show ?thesis by (simp add: get_orig_frame_def split: option.splits)
next
  case (FindPupils r)
  with find_pupils_slots [of lib r st] show ?thesis by simp
next
  case (DrawPupil i r v)
  with draw_pupil_cases [of lib i r v st] show ?thesis by auto
next
  case TrackPupil
  show ?thesis
  proof (cases "roi_pupil st")
    case None
    with TrackPupil show ?thesis by (simp add: track_pupil_eq)
  next
    case (Some r)
    with TrackPupil draw_pupil_cases [of lib None "Some r" True st] show ?thesis
      by (auto simp: track_pupil_eq)
  qed
next
  case (FindRefle r)
  with find_refle_slots [of lib r st] show ?thesis by simp
next
  case (DrawRefle i r v)
  with draw_refle_cases [of lib i r v st] show ?thesis by auto
next
  case TrackRefle
  show ?thesis
  proof (cases "roi_refle st")
    case None
    with TrackRefle show ?thesis by (simp add: track_refle_eq)
  next
    case (Some r)
    with TrackRefle draw_refle_cases [of lib None "Some r" True st] show ?thesis
      by (auto simp: track_refle_eq)
  qed
qed

lemma roi_sizes_step:
  assumes "roi_sizes st"
  shows "roi_sizes (step d lib x st)"
proof -
  from step_pupil_slot [of d lib x st]
  have p: "case roi_pupil (step d lib x st) of None \<Rightarrow> True
           | Some r \<Rightarrow> roi_width r = 200 \<and> roi_height r = 200"
  proof (elim disjE exE)
    assume "roi_pupil (step d lib x st) = roi_pupil st"
    with assms show ?thesis by (simp add: roi_sizes_def)
  next
    assume "roi_pupil (step d lib x st) = None"
    then show ?thesis by simp
  next
    fix cnt
    assume "roi_pupil (step d lib x st) = Some (around 100 (fst (fitEllipse lib cnt)))"
    then show ?thesis by (simp add: around_size)
  qed
  from step_refle_slot [of d lib x st]
  have q: "case roi_refle (step d lib x st) of None \<Rightarrow> True
           | Some r \<Rightarrow> roi_width r = 30 \<and> roi_height r = 30"
  proof (elim disjE exE)
    assume "roi_refle (step d lib x st) = roi_refle st"
    with assms show ?thesis by (simp add: roi_sizes_def)
  next
    assume "roi_refle (step d lib x st) = None"
    then show ?thesis by simp
  next
    fix cnt
    assume "roi_refle (step d lib x st) = Some (around 15 (fst (minAreaRect lib cnt)))"
    then show ?thesis by (simp add: around_size)
  qed
  from p q show ?thesis by (simp add: roi_sizes_def)
qed

lemma roi_sizes_run: "roi_sizes st \<Longrightarrow> roi_sizes (run d lib xs st)"
  unfolding run_def
  by (induction xs arbitrary: st) (simp_all add: roi_sizes_step)

lemma roi_sizes_init: "roi_sizes init"
  by (simp add: roi_sizes_def init_def)

lemma slot_kept:
  "pupil_slot_ok lib st g \<Longrightarrow> roi_pupil st' = roi_pupil st \<or> roi_pupil st' = None \<Longrightarrow>
     pupil_slot_ok lib st' g"
  "refle_slot_ok lib st g \<Longrightarrow> roi_refle st' = roi_refle st \<or> roi_refle st' = None \<Longrightarrow>
     refle_slot_ok lib st' g"
  by (auto simp: pupil_slot_ok_def refle_slot_ok_def)

lemma slot_drawn:
  "pupil_slot_ok lib st g \<Longrightarrow>
     roi_pupil st' = (case s of None \<Rightarrow> roi_pupil st
                      | Some cnt \<Rightarrow> Some (around 100 (fst (fitEllipse lib cnt)))) \<Longrightarrow>
     pupil_slot_ok lib st' (case s of None \<Rightarrow> g | Some c \<Rightarrow> Some c)"
  "refle_slot_ok lib st g \<Longrightarrow>
     roi_refle st' = (case s of None \<Rightarrow> roi_refle st
                      | Some cnt \<Rightarrow> Some (around 15 (fst (minAreaRect lib cnt)))) \<Longrightarrow>
     refle_slot_ok lib st' (case s of None \<Rightarrow> g | Some c \<Rightarrow> Some c)"
  by (auto simp: pupil_slot_ok_def refle_slot_ok_def split: option.splits)

lemma pupil_slot_step:
  assumes "pupil_slot_ok lib st g"
  shows "pupil_slot_ok lib (step d lib x st)
           (case drawn_pupil lib x st of None \<Rightarrow> g | Some c \<Rightarrow> Some c)"
proof (cases x)
  case NextFrame
  with slot_kept(1) [OF assms, of "snd (next_frame d lib st)"] next_frame_rois [of d lib st]
  show ?thesis by simp
next
  case (LoadVideo c)
  with slot_kept(1) [OF assms, of "snd (load_video d lib c st)"] load_video_rois [of d lib c st]
  show ?thesis by simp
next
  case GetOrigFrame
  with slot_kept(1) [OF assms, of "snd (get_orig_frame st)"] show ?thesis
    by (simp add: get_orig_frame_def split: option.splits)
next
  case (FindPupils r)
  with slot_kept(1) [OF assms, of "snd (find_pupils lib r st)"] find_pupils_slots [of lib r st]
  show ?thesis by simp
next
  case (DrawPupil i r v)
  with slot_drawn(1) [OF assms draw_pupil_slot [of lib i r v st]] show ?thesis by simp
next
  case TrackPupil
  show ?thesis
  proof (cases "roi_pupil st")
    case None
    with TrackPupil assms show ?thesis by (simp add: track_pupil_eq)
  next
    case (Some r)
    with TrackPupil slot_drawn(1) [OF assms draw_pupil_slot [of lib None "Some r" True st]]
    show ?thesis by (simp add: track_pupil_eq)
  qed
next
  case (FindRefle r)
  with slot_kept(1) [OF assms, of "snd (find_refle lib r st)"] find_refle_slots [of lib r st]
  show ?thesis by simp
next
  case (DrawRefle i r v)
  with slot_kept(1) [OF assms, of "snd (draw_refle lib i r v st)"]
       draw_refle_other_slot [of lib i r v st]
  show ?thesis by simp
next
  case TrackRefle
  show ?thesis
  proof (cases "roi_refle st")
    case None
    with TrackRefle assms show ?thesis by (simp add: track_refle_eq)
  next
    case (Some r)
    with TrackRefle slot_kept(1) [OF assms, of "snd (draw_refle lib None (Some r) True st)"]
         draw_refle_other_slot [of lib None "Some r" True st]
    show ?thesis by (simp add: track_refle_eq)
  qed
qed

lemma refle_slot_step:
  assumes "refle_slot_ok lib st g"
  shows "refle_slot_ok lib (step d lib x st)
           (case drawn_refle lib x st of None \<Rightarrow> g | Some c \<Rightarrow> Some c)"
proof (cases x)
  case NextFrame
  with slot_kept(2) [OF assms, of "snd (next_frame d lib st)"] next_frame_rois [of d lib st]
  show ?thesis by simp
next
  case (LoadVideo c)
  with slot_kept(2) [OF assms, of "snd (load_video d lib c st)"] load_video_rois [of d lib c st]
  show ?thesis by simp
next
  case GetOrigFrame
  with slot_kept(2) [OF assms, of "snd (get_orig_frame st)"] show ?thesis
    by (simp add: get_orig_frame_def split: option.splits)
next
  case (FindPupils r)
  with slot_kept(2) [OF assms, of "snd (find_pupils lib r st)"] find_pupils_slots [of lib r st]
  show ?thesis by simp
next
  case (DrawPupil i r v)
  with slot_kept(2) [OF assms, of "snd (draw_pupil lib i r v st)"]
       draw_pupil_other_slot [of lib i r v st]
  show ?thesis by simp
next
  case TrackPupil
  show ?thesis
  proof (cases "roi_pupil st")
    case None
    with TrackPupil assms show ?thesis by (simp add: track_pupil_eq)
  next
    case (Some r)
    with TrackPupil slot_kept(2) [OF assms, of "snd (draw_pupil lib None (Some r) True st)"]
         draw_pupil_other_slot [of lib None "Some r" True st]
    show ?thesis by (simp add: track_pupil_eq)
  qed
next
  case (FindRefle r)
  with slot_kept(2) [OF assms, of "snd (find_refle lib r st)"] find_refle_slots [of lib r st]
  show ?thesis by simp
next
  case (DrawRefle i r v)
  with slot_drawn(2) [OF assms draw_refle_slot [of lib i r v st]] show ?thesis by simp
next
  case TrackRefle
  show ?thesis
  proof (cases "roi_refle st")
    case None
    with TrackRefle assms show ?thesis by (simp add: track_refle_eq)
  next
    case (Some r)
    with TrackRefle slot_drawn(2) [OF assms draw_refle_slot [of lib None "Some r" True st]]
    show ?thesis by (simp add: track_refle_eq)
  qed
qed

lemma pupil_slot_run:
  "pupil_slot_ok lib st g \<Longrightarrow> pupil_slot_ok lib (run d lib xs st) (last_pupil d lib xs st g)"
  unfolding run_def
  by (induction xs arbitrary: st g) (simp_all add: pupil_slot_step del: drawn_pupil.simps)

lemma refle_slot_run:
  "refle_slot_ok lib st g \<Longrightarrow> refle_slot_ok lib (run d lib xs st) (last_refle d lib xs st g)"
  unfolding run_def
  by (induction xs arbitrary: st g) (simp_all add: refle_slot_step del: drawn_refle.simps)

lemma slot_ok_init: "pupil_slot_ok lib init None" "refle_slot_ok lib init None"
  by (simp_all add: pupil_slot_ok_def refle_slot_ok_def init_def)

lemma around_centre:
  "roi_centre (around k p) = (real_of_int (py_int (fst p)), real_of_int (py_int (snd p)))"
  by (simp add: roi_centre_def around_def)

section \<open>The sample library on the sample contours\<close>

lemma fst_pair: "fst p = a \<Longrightarrow> p = (a, snd p)"
  by (cases p) simp

lemma sample_findContours: "findContours (sample_cv cs) g = cs"
  by (simp add: sample_cv_def)

lemma sample_contourArea: "contourArea (sample_cv cs) c = shoelace c"
  by (simp add: sample_cv_def)

lemma sample_convexHull: "convexHull (sample_cv cs) c = c"
  by (simp add: sample_cv_def)

lemma sample_arcLength: "arcLength (sample_cv cs) c b = perimeter c"
  by (simp add: sample_cv_def)

lemma sample_minAreaRect: "minAreaRect (sample_cv cs) c = box_fit c"
  by (simp add: sample_cv_def)

lemma sample_fitEllipse: "fitEllipse (sample_cv cs) c = box_fit c"
  by (simp add: sample_cv_def)

lemma sample_resize: "resize (sample_cv cs) im fx fy = map every_other (every_other im)"
  by (simp add: sample_cv_def)

lemmas sample_lib =
  sample_findContours sample_contourArea sample_convexHull sample_arcLength
  sample_minAreaRect sample_fitEllipse

lemma hull_findContours: "findContours (hull_cv hs cs) g = cs"
  by (simp add: hull_cv_def sample_cv_def)

lemma hull_contourArea: "contourArea (hull_cv hs cs) c = shoelace c"
  by (simp add: hull_cv_def sample_cv_def)

lemma hull_convexHull:
  "convexHull (hull_cv hs cs) c = (case map_of hs c of None \<Rightarrow> c | Some h \<Rightarrow> h)"
  by (simp add: hull_cv_def sample_cv_def)

lemma hull_arcLength: "arcLength (hull_cv hs cs) c b = perimeter c"
  by (simp add: hull_cv_def sample_cv_def)

lemma sqrt_400: "sqrt 400 = 20"
  using real_sqrt_abs2 [of 20] by simp

lemma sqrt_625: "sqrt 625 = 25"
  using real_sqrt_abs2 [of 25] by simp

lemma sqrt_900: "sqrt 900 = 30"
  using real_sqrt_abs2 [of 30] by simp

lemma sqrt_1600: "sqrt 1600 = 40"
  using real_sqrt_abs2 [of 40] by simp

lemma sqrt_2500: "sqrt 2500 = 50"
  using real_sqrt_abs2 [of 50] by simp

lemma pi_ge_3: "3 \<le> pi"
proof -
  have "sin (pi / 6) \<le> pi / 6" by (rule sin_x_le_x) simp
  then show ?thesis by (simp add: sin_30)
qed

lemma sample_frame_full: "\<not> empty_image sample_frame"
  by (simp add: empty_image_def sample_frame_def)

lemma crop_sample_None: "\<not> empty_image (cropped sample_frame None)"
  by (simp add: cropped_def sample_frame_full)

lemma crop_sample_200: "\<not> empty_image (cropped sample_frame (Some ((0, 0), (200, 200))))"
  by (simp add: cropped_def crop_def py_slice_def empty_image_def sample_frame_def Let_def)

lemma crop_sample_300: "\<not> empty_image (cropped sample_frame (Some ((100, 100), (300, 300))))"
  by (simp add: cropped_def crop_def py_slice_def empty_image_def sample_frame_def Let_def)

lemma every_other_full: "xs \<noteq> [] \<Longrightarrow> every_other xs \<noteq> [] \<and> hd (every_other xs) = hd xs"
  by (cases xs rule: every_other.cases) simp_all

lemma halved_full: "\<not> empty_image im \<Longrightarrow> \<not> empty_image (map every_other (every_other im))"
  using every_other_full [of im] every_other_full [of "hd im"]
  by (auto simp: empty_image_def hd_map)

lemma translate_octagon: "translate 0 0 octagon = octagon"
  by (simp add: translate_def wrap32_def octagon_def)

lemma translate_octagon2: "translate 0 0 octagon2 = octagon2"
  by (simp add: translate_def wrap32_def octagon2_def)

lemma translate_bright: "translate 0 0 bright_square = bright_square"
  by (simp add: translate_def wrap32_def bright_square_def)

lemma translate_odd: "translate 0 0 odd_square = odd_square"
  by (simp add: translate_def wrap32_def odd_square_def)

lemma translate_notched_hull: "translate 0 0 notched_hull = notched_hull"
  by (simp add: translate_def wrap32_def notched_hull_def)

lemma translate_cropped: "translate 100 100 cropped_square = bright_square"
  by (simp add: translate_def wrap32_def cropped_square_def bright_square_def)

lemma shoelace_octagon: "shoelace octagon = 3000"
  by (simp add: shoelace_def closed_edges_def octagon_def)

lemma shoelace_octagon2: "shoelace octagon2 = 3000"
  by (simp add: shoelace_def closed_edges_def octagon2_def)

lemma perimeter_octagon: "perimeter octagon = 200"
  by (simp add: perimeter_def closed_edges_def octagon_def sqrt_400 sqrt_625 sqrt_900)

lemma perimeter_octagon2: "perimeter octagon2 = 200"
  by (simp add: perimeter_def closed_edges_def octagon2_def sqrt_400 sqrt_625 sqrt_900)

lemma circularity_sample: "(200::real)\<^sup>2 / (4 * pi * 3000) < 1.6"
  using pi_ge_3 by (simp add: field_simps)

lemma accept_octagon: "pupil_accept (sample_cv cs) octagon"
  unfolding pupil_accept_def sample_lib shoelace_octagon perimeter_octagon
  using circularity_sample by (simp add: octagon_def)

lemma accept_octagon2: "pupil_accept (sample_cv cs) octagon2"
  unfolding pupil_accept_def sample_lib shoelace_octagon2 perimeter_octagon2
  using circularity_sample by (simp add: octagon2_def)

lemma shoelace_notched: "shoelace notched = 4900"
  by (simp add: shoelace_def closed_edges_def notched_def)

lemma shoelace_notched_hull: "shoelace notched_hull = 5800"
  by (simp add: shoelace_def closed_edges_def notched_hull_def)

lemma perimeter_notched_hull: "perimeter notched_hull = 280"
  by (simp add: perimeter_def closed_edges_def notched_hull_def sqrt_625 sqrt_1600 sqrt_2500)

lemma hull_of_notched:
  "convexHull (hull_cv [(notched, notched_hull)] cs) notched = notched_hull"
  by (simp add: hull_convexHull)

lemma circularity_notched: "(280::real)\<^sup>2 / (4 * pi * 4900) < 1.6"
  using pi_ge_3 by (simp add: field_simps)

lemma accept_notched: "pupil_accept (hull_cv [(notched, notched_hull)] cs) notched"
  unfolding pupil_accept_def hull_of_notched hull_contourArea hull_arcLength shoelace_notched
    perimeter_notched_hull
  using circularity_notched by (simp add: notched_hull_def)

lemma sample_pupils_loop:
  "find_pupils_loop (sample_cv [octagon, octagon2]) 0 0 [octagon, octagon2] []
   = Inr [octagon, octagon2]"
  by (simp only: find_pupils_loop_step accept_octagon accept_octagon2 if_True fits64_small
        simp_thms find_pupils_loop.simps(1) sample_lib translate_octagon translate_octagon2
        append.simps)

lemma sample_find_pupils_any:
  assumes "frame st = Some im" and "\<not> empty_image im"
  shows "fst (find_pupils (sample_cv [octagon, octagon2]) None st) = Inr [octagon, octagon2]"
  using assms sample_pupils_loop
  by (simp add: find_pupils_eq pupil_contours_def offset_def cropped_def sample_findContours
        del: find_pupils_loop.simps)

lemma sample_find_pupils:
  "fst (find_pupils (sample_cv [octagon, octagon2]) None (sample_state p q))
   = Inr [octagon, octagon2]"
  by (rule sample_find_pupils_any [of _ sample_frame])
     (simp_all add: sample_state_def sample_frame_full)

lemma notched_pupils_loop:
  "find_pupils_loop (hull_cv [(notched, notched_hull)] [notched]) 0 0 [notched] []
   = Inr [notched_hull]"
  by (simp only: find_pupils_loop_step accept_notched if_True fits64_small simp_thms
        find_pupils_loop.simps(1) hull_of_notched translate_notched_hull append.simps)

lemma notched_find_pupils:
  "fst (find_pupils (hull_cv [(notched, notched_hull)] [notched]) None (sample_state None None))
   = Inr [notched_hull]"
  using notched_pupils_loop
  by (simp add: find_pupils_eq pupil_contours_def offset_def sample_state_def crop_sample_None
        hull_findContours del: find_pupils_loop.simps)

lemma sample_no_pupils:
  "\<not> empty_image (cropped sample_frame r) \<Longrightarrow>
     fst (find_pupils (sample_cv []) r (sample_state p q)) = Inr []"
  by (simp add: find_pupils_eq sample_state_def pupil_contours_def sample_findContours)

lemma sample_no_refle:
  "\<not> empty_image (cropped sample_frame p) \<Longrightarrow>
     fst (find_refle (sample_cv []) r (sample_state p q)) = Inr []"
  by (simp add: find_refle_eq sample_state_def refle_contours_def sample_findContours)

lemma box_fit_bright: "box_fit bright_square = ((115, 115), (10, 10), 0)"
  by (simp add: box_fit_def bright_square_def Let_def)

lemma box_fit_odd: "box_fit odd_square = ((229 / 2, 229 / 2), (9, 9), 0)"
  by (simp add: box_fit_def odd_square_def Let_def)

lemma box_fit_octagon: "box_fit octagon = ((30, 30), (60, 60), 0)"
  by (simp add: box_fit_def octagon_def Let_def)

lemma box_fit_octagon2: "box_fit octagon2 = ((130, 130), (60, 60), 0)"
  by (simp add: box_fit_def octagon2_def Let_def)

lemma shoelace_bright: "shoelace bright_square = 100"
  by (simp add: shoelace_def closed_edges_def bright_square_def)

lemma shoelace_cropped: "shoelace cropped_square = 100"
  by (simp add: shoelace_def closed_edges_def cropped_square_def)

lemma shoelace_odd: "shoelace odd_square = 81"
  by (simp add: shoelace_def closed_edges_def odd_square_def)

lemma py_int_samples:
  "py_int 115 = 115" "py_int (229 / 2) = 114" "py_int 30 = 30" "py_int 130 = 130"
  by (simp_all add: py_int_def)

lemma sample_find_refle_bright:
  "fst (find_refle (sample_cv [bright_square]) r
          (sample_state None (Some ((100, 100), (130, 130)))))
   = Inr [bright_square]"
  by (cases r)
     (simp_all add: find_refle_eq sample_state_def refle_contours_def offset_def sample_lib
        crop_sample_None fits64_small translate_bright shoelace_bright box_fit_bright
        py_int_samples Let_def)

lemma sample_find_refle_cropped:
  "fst (find_refle (sample_cv [cropped_square]) None
          (sample_state (Some ((100, 100), (300, 300))) None))
   = Inr [bright_square]"
  by (simp add: find_refle_eq sample_state_def refle_contours_def offset_def sample_lib
        crop_sample_300 fits64_small translate_cropped shoelace_cropped box_fit_bright Let_def)

lemma sample_find_refle_odd:
  "fst (find_refle (sample_cv [odd_square]) None (sample_state None None)) = Inr [odd_square]"
  by (simp add: find_refle_eq sample_state_def refle_contours_def offset_def sample_lib
        crop_sample_None fits64_small translate_odd shoelace_odd box_fit_odd Let_def)

lemma sample_draw_pupil:
  "fst (draw_pupil (sample_cv [octagon, octagon2]) index None v (sample_state None None))
   = (case py_index [octagon, octagon2] (default_index index) of
        None \<Rightarrow> Inl IndexError | Some cnt \<Rightarrow> Inr ())"
  using draw_pupil_fst [OF fst_pair [OF sample_find_pupils [of None None]], of index v]
  by simp

lemma sample_draw_refle_odd:
  "fst (draw_refle (sample_cv [odd_square]) None None v (sample_state None None)) = Inr ()
   \<and> roi_refle (snd (draw_refle (sample_cv [odd_square]) None None v (sample_state None None)))
       = Some ((99, 99), (129, 129))"
proof -
  have i: "py_index [odd_square] (default_index None) = Some odd_square"
    by (simp add: py_index_def default_index_def)
  from draw_refle_fst [OF fst_pair [OF sample_find_refle_odd], of None v]
       draw_refle_selected [OF fst_pair [OF sample_find_refle_odd] i, of v]
  show ?thesis
    by (simp add: i around_def sample_minAreaRect box_fit_odd py_int_samples)
qed

text \<open>A run from the initial tracker: a video of one frame is loaded and a pupil is drawn.\<close>

lemma sample_loaded:
  "frame (step (Suc (Suc 0)) (sample_cv cs) (LoadVideo one_frame_capture) init)
     = Some (map every_other (every_other sample_frame))"
  by (simp add: load_video_def init_def one_frame_capture_def cap_read_def cap_set_pos_def
        sample_resize Let_def)

lemma sample_run_found:
  "fst (find_pupils (sample_cv [octagon, octagon2]) None
          (step (Suc (Suc 0)) (sample_cv [octagon, octagon2]) (LoadVideo one_frame_capture) init))
   = Inr [octagon, octagon2]"
  by (rule sample_find_pupils_any [OF sample_loaded halved_full [OF sample_frame_full]])

lemma sample_run_slot:
  "roi_pupil (run (Suc (Suc 0)) (sample_cv [octagon, octagon2])
                [LoadVideo one_frame_capture, DrawPupil (Some 1) None False] init)
   = Some ((30, 30), (230, 230))"
proof -
  have i: "py_index [octagon, octagon2] (default_index (Some 1)) = Some octagon2"
    by (simp add: py_index_def default_index_def)
  from draw_pupil_selected [OF fst_pair [OF sample_run_found] i, of False]
  show ?thesis
    by (simp add: run_def around_def sample_fitEllipse box_fit_octagon2 py_int_samples
          del: step.simps(2))
qed

lemma sample_loaded_pupil_slot:
  "roi_pupil (step (Suc (Suc 0)) (sample_cv cs) (LoadVideo one_frame_capture) init) = None"
  by (simp add: load_video_def init_def one_frame_capture_def cap_read_def cap_set_pos_def
        Let_def)

lemma sample_find_refle_odd_any:
  assumes "frame st = Some im" and "\<not> empty_image im" and "roi_pupil st = None"
  shows "fst (find_refle (sample_cv [odd_square]) None st) = Inr [odd_square]"
  using assms
  by (simp add: find_refle_eq refle_contours_def offset_def cropped_def sample_lib fits64_small
        translate_odd shoelace_odd box_fit_odd Let_def)

lemma sample_run_refle_found:
  "fst (find_refle (sample_cv [odd_square]) None
          (step (Suc (Suc 0)) (sample_cv [odd_square]) (LoadVideo one_frame_capture) init))
   = Inr [odd_square]"
  by (rule sample_find_refle_odd_any
        [OF sample_loaded halved_full [OF sample_frame_full] sample_loaded_pupil_slot])

lemma sample_run_refle_slot:
  "roi_refle (run (Suc (Suc 0)) (sample_cv [odd_square])
                [LoadVideo one_frame_capture, DrawRefle None None True] init)
   = Some ((99, 99), (129, 129))"
proof -
  have i: "py_index [odd_square] (default_index None) = Some odd_square"
    by (simp add: py_index_def default_index_def)
  from draw_refle_selected [OF fst_pair [OF sample_run_refle_found] i, of True]
  show ?thesis
    by (simp add: run_def around_def sample_minAreaRect box_fit_odd py_int_samples
          del: step.simps(2))
qed

section \<open>The claims\<close>

text \<open>
  C1, as the code has it. Every contour in the list that \<^verbatim>\<open>find_pupils\<close> returns is the
  convex hull, moved by the crop offset with the coordinates wrapped to 32 bits, of a contour
  of the thresholded frame; it is the area of that contour, not of the hull returned, that is
  not zero and lies strictly between 1000 and 5000; the hull has at least 5 points, and the
  circularity (hull perimeter squared over 4 pi times the area of the contour) is strictly
  below 1.6. The list holds the hulls of exactly the contours that pass these filters, in
  their order.
\<close>

theorem find_pupils_filters:
  assumes "fst (find_pupils lib r st) = Inr found" and "h \<in> set found"
  shows "\<exists>im cnt. frame st = Some im
           \<and> found = map (\<lambda>c. translate (fst (offset r)) (snd (offset r)) (convexHull lib c))
                       (filter (pupil_accept lib) (pupil_contours lib im r (noise_kernel st)))
           \<and> cnt \<in> set (pupil_contours lib im r (noise_kernel st))
           \<and> h = translate (fst (offset r)) (snd (offset r)) (convexHull lib cnt)
           \<and> contourArea lib cnt \<noteq> 0
           \<and> 1000 < contourArea lib cnt \<and> contourArea lib cnt < 5000
           \<and> 5 \<le> length (convexHull lib cnt)
           \<and> (arcLength lib (convexHull lib cnt) True)\<^sup>2 / (4 * pi * contourArea lib cnt) < 1.6"
proof -
  from assms(1) obtain im where im: "frame st = Some im"
    and f: "find_pupils_loop lib (fst (offset r)) (snd (offset r))
              (pupil_contours lib im r (noise_kernel st)) [] = Inr found"
    by (auto simp: find_pupils_eq split: option.splits if_splits)
  from find_pupils_loop_exact [OF f]
  have e: "found = map (\<lambda>c. translate (fst (offset r)) (snd (offset r)) (convexHull lib c))
                     (filter (pupil_accept lib) (pupil_contours lib im r (noise_kernel st)))"
    by simp
  from find_pupils_loop_sound [OF f assms(2)]
  obtain cnt where "cnt \<in> set (pupil_contours lib im r (noise_kernel st))"
    and "h = translate (fst (offset r)) (snd (offset r)) (convexHull lib cnt)"
    and "pupil_accept lib cnt"
    by auto
  with im e show ?thesis unfolding pupil_accept_def by blast
qed

theorem find_pupils_filters_witness:
  "fst (find_pupils (sample_cv [octagon, octagon2]) None (sample_state None None))
     = Inr [octagon, octagon2]
   \<and> octagon2 \<in> set [octagon, octagon2]
   \<and> (\<exists>im cnt. frame (sample_state None None) = Some im
         \<and> [octagon, octagon2]
             = map (\<lambda>c. translate (fst (offset None)) (snd (offset None))
                          (convexHull (sample_cv [octagon, octagon2]) c))
                 (filter (pupil_accept (sample_cv [octagon, octagon2]))
                    (pupil_contours (sample_cv [octagon, octagon2]) im None
                       (noise_kernel (sample_state None None))))
         \<and> cnt \<in> set (pupil_contours (sample_cv [octagon, octagon2]) im None
                          (noise_kernel (sample_state None None)))
         \<and> octagon2 = translate (fst (offset None)) (snd (offset None))
                         (convexHull (sample_cv [octagon, octagon2]) cnt)
         \<and> contourArea (sample_cv [octagon, octagon2]) cnt \<noteq> 0
         \<and> 1000 < contourArea (sample_cv [octagon, octagon2]) cnt
         \<and> contourArea (sample_cv [octagon, octagon2]) cnt < 5000
         \<and> 5 \<le> length (convexHull (sample_cv [octagon, octagon2]) cnt)
         \<and> (arcLength (sample_cv [octagon, octagon2])
               (convexHull (sample_cv [octagon, octagon2]) cnt) True)\<^sup>2
             / (4 * pi * contourArea (sample_cv [octagon, octagon2]) cnt) < 1.6)"
proof -
  have e: "fst (find_pupils (sample_cv [octagon, octagon2]) None (sample_state None None))
           = Inr [octagon, octagon2]"
    by (rule sample_find_pupils)
  have m: "octagon2 \<in> set [octagon, octagon2]" by simp
  from e m find_pupils_filters [OF e m] show ?thesis by (intro conjI)
qed

text \<open>
  C1, as stated. The contour found is an octagon with a notch; its area is 4900 and it passes
  the filters. What is returned is its hull, the octagon without the notch, and the area of
  that returned contour is 5800, which is not below 5000.
\<close>

theorem find_pupils_hull_area_counterexample:
  "fst (find_pupils (hull_cv [(notched, notched_hull)] [notched]) None (sample_state None None))
     = Inr [notched_hull]
   \<and> contourArea (hull_cv [(notched, notched_hull)] [notched]) notched = 4900
   \<and> contourArea (hull_cv [(notched, notched_hull)] [notched]) notched_hull = 5800
   \<and> \<not> contourArea (hull_cv [(notched, notched_hull)] [notched]) notched_hull < 5000"
  by (simp add: notched_find_pupils hull_contourArea shoelace_notched shoelace_notched_hull)

text \<open>
  C2, as the code has it. With a \<^verbatim>\<open>roi\<close> argument that is not \<^verbatim>\<open>None\<close>, every candidate that
  \<^verbatim>\<open>find_refle\<close> returns has the truncated centre of its rectangle fit, and so the centre
  itself, strictly inside the stored reflection region \<^verbatim>\<open>self.roi_refle\<close>; the rectangle
  passed as \<^verbatim>\<open>roi\<close> is not looked at.
\<close>

theorem find_refle_centre_in_stored_roi:
  assumes "fst (find_refle lib (Some given) st) = Inr found" and "c \<in> set found"
  shows "\<exists>stored. roi_refle st = Some stored
           \<and> centre_in stored (minAreaRect lib c)
           \<and> strictly_inside stored (fst (minAreaRect lib c))"
proof -
  from assms(1) obtain im where
    l: "find_refle_loop lib (Some given) (roi_refle st) (fst (offset (roi_pupil st)))
          (snd (offset (roi_pupil st)))
          (refle_contours lib im (roi_pupil st) (noise_kernel st)) [] = Inr found"
    by (auto simp: find_refle_eq split: option.splits if_splits)
  from find_refle_loop_sound [OF l assms(2)]
  obtain stored where "roi_refle st = Some stored"
    and "centre_in stored (minAreaRect lib c)"
    by auto
  with centre_in_inside [of stored "minAreaRect lib c"] show ?thesis by blast
qed

theorem find_refle_centre_in_stored_roi_witness:
  "fst (find_refle (sample_cv [bright_square]) (Some ((100, 100), (130, 130)))
          (sample_state None (Some ((100, 100), (130, 130))))) = Inr [bright_square]
   \<and> bright_square \<in> set [bright_square]
   \<and> (\<exists>stored. roi_refle (sample_state None (Some ((100, 100), (130, 130)))) = Some stored
         \<and> centre_in stored (minAreaRect (sample_cv [bright_square]) bright_square)
         \<and> strictly_inside stored
             (fst (minAreaRect (sample_cv [bright_square]) bright_square)))"
proof -
  have e: "fst (find_refle (sample_cv [bright_square]) (Some ((100, 100), (130, 130)))
                  (sample_state None (Some ((100, 100), (130, 130))))) = Inr [bright_square]"
    by (rule sample_find_refle_bright)
  have m: "bright_square \<in> set [bright_square]" by simp
  from e m find_refle_centre_in_stored_roi [OF e m] show ?thesis by (intro conjI)
qed

text \<open>
  C2, as stated. The stored reflection region is (100,100)-(130,130), the \<^verbatim>\<open>roi\<close> argument
  is (0,0)-(10,10); the square with centre (115,115) is returned although its centre is
  outside the rectangle passed as \<^verbatim>\<open>roi\<close>.
\<close>

theorem find_refle_roi_parameter_counterexample:
  "fst (find_refle (sample_cv [bright_square]) (Some ((0, 0), (10, 10)))
          (sample_state None (Some ((100, 100), (130, 130))))) = Inr [bright_square]
   \<and> \<not> strictly_inside ((0, 0), (10, 10))
          (fst (minAreaRect (sample_cv [bright_square]) bright_square))"
  by (simp add: sample_find_refle_bright sample_minAreaRect box_fit_bright strictly_inside_def)

text \<open>
  C3, as the code has it. When the capture yields a frame, \<^verbatim>\<open>next_frame\<close> returns, the current
  frame and the original copy are both the resized input, and both regions are left as they
  were; when the capture is at its end, both regions are cleared.
\<close>

theorem next_frame_ingests:
  assumes "cap st = Some c"
  shows "(cap_read c = (Some img, c') \<longrightarrow>
            fst (next_frame (Suc d) lib st) = Inr ()
            \<and> frame (snd (next_frame (Suc d) lib st)) = Some (resize lib img 0.5 0.5)
            \<and> orig_image (snd (next_frame (Suc d) lib st)) = Some (resize lib img 0.5 0.5)
            \<and> roi_pupil (snd (next_frame (Suc d) lib st)) = roi_pupil st
            \<and> roi_refle (snd (next_frame (Suc d) lib st)) = roi_refle st)
         \<and> (cap_read c = (None, c') \<longrightarrow>
              roi_pupil (snd (next_frame (Suc d) lib st)) = None
              \<and> roi_refle (snd (next_frame (Suc d) lib st)) = None)"
proof -
  have a: "cap_read c = (Some img, c') \<longrightarrow>
            fst (next_frame (Suc d) lib st) = Inr ()
            \<and> frame (snd (next_frame (Suc d) lib st)) = Some (resize lib img 0.5 0.5)
            \<and> orig_image (snd (next_frame (Suc d) lib st)) = Some (resize lib img 0.5 0.5)
            \<and> roi_pupil (snd (next_frame (Suc d) lib st)) = roi_pupil st
            \<and> roi_refle (snd (next_frame (Suc d) lib st)) = roi_refle st"
  proof
    assume r: "cap_read c = (Some img, c')"
    show "fst (next_frame (Suc d) lib st) = Inr ()
            \<and> frame (snd (next_frame (Suc d) lib st)) = Some (resize lib img 0.5 0.5)
            \<and> orig_image (snd (next_frame (Suc d) lib st)) = Some (resize lib img 0.5 0.5)
            \<and> roi_pupil (snd (next_frame (Suc d) lib st)) = roi_pupil st
            \<and> roi_refle (snd (next_frame (Suc d) lib st)) = roi_refle st"
      unfolding next_frame_read [OF assms r] by simp
  qed
  have b: "cap_read c = (None, c') \<longrightarrow>
              roi_pupil (snd (next_frame (Suc d) lib st)) = None
              \<and> roi_refle (snd (next_frame (Suc d) lib st)) = None"
    using next_frame_eof_clears [OF assms] by blast
  from a b show ?thesis by (rule conjI)
qed

theorem next_frame_ingests_witness:
  "cap tracked_state = Some one_frame_capture
   \<and> cap_read one_frame_capture = (Some sample_frame, one_frame_capture\<lparr>pos := Suc 0\<rparr>)
   \<and> frame (snd (next_frame (Suc 0) (sample_cv []) tracked_state))
       = Some (resize (sample_cv []) sample_frame 0.5 0.5)
   \<and> roi_pupil (snd (next_frame (Suc 0) (sample_cv []) tracked_state))
       = roi_pupil tracked_state
   \<and> cap ended_state = Some \<lparr>frames = [sample_frame], pos = Suc 0\<rparr>
   \<and> cap_read \<lparr>frames = [sample_frame], pos = Suc 0\<rparr>
       = (None, \<lparr>frames = [sample_frame], pos = Suc 0\<rparr>)
   \<and> roi_pupil (snd (next_frame (Suc 0) (sample_cv []) ended_state)) = None
   \<and> roi_refle (snd (next_frame (Suc 0) (sample_cv []) ended_state)) = None"
proof -
  have c1: "cap tracked_state = Some one_frame_capture" by (simp add: tracked_state_def)
  have r1: "cap_read one_frame_capture
            = (Some sample_frame, one_frame_capture\<lparr>pos := Suc 0\<rparr>)"
    by (simp add: cap_read_def one_frame_capture_def)
  have c2: "cap ended_state = Some \<lparr>frames = [sample_frame], pos = Suc 0\<rparr>"
    by (simp add: ended_state_def)
  have r2: "cap_read \<lparr>frames = [sample_frame], pos = Suc 0\<rparr>
            = (None, \<lparr>frames = [sample_frame], pos = Suc 0\<rparr>)"
    by (simp add: cap_read_def)
  from next_frame_ingests [OF c1, of sample_frame "one_frame_capture\<lparr>pos := Suc 0\<rparr>" 0
         "sample_cv []"] r1
  have w1: "frame (snd (next_frame (Suc 0) (sample_cv []) tracked_state))
              = Some (resize (sample_cv []) sample_frame 0.5 0.5)
            \<and> roi_pupil (snd (next_frame (Suc 0) (sample_cv []) tracked_state))
              = roi_pupil tracked_state"
    by blast
  from next_frame_ingests [OF c2, of sample_frame "\<lparr>frames = [sample_frame], pos = Suc 0\<rparr>" 0
         "sample_cv []"] r2
  have w2: "roi_pupil (snd (next_frame (Suc 0) (sample_cv []) ended_state)) = None
            \<and> roi_refle (snd (next_frame (Suc 0) (sample_cv []) ended_state)) = None"
    by blast
  from c1 r1 c2 r2 w1 w2 show ?thesis by blast
qed

text \<open>
  C3, as stated. A tracker with both regions set reads the next frame: the call returns and
  both regions are still set.
\<close>

theorem next_frame_keeps_rois_counterexample:
  "fst (next_frame (Suc 0) (sample_cv []) tracked_state) = Inr ()
   \<and> roi_pupil (snd (next_frame (Suc 0) (sample_cv []) tracked_state))
       = Some ((0, 0), (200, 200))
   \<and> roi_refle (snd (next_frame (Suc 0) (sample_cv []) tracked_state))
       = Some ((100, 100), (130, 130))"
  by (simp add: tracked_state_def one_frame_capture_def cap_read_def Let_def)



text \<open>
  C5, as the code has it. After every sequence of calls from the initial tracker: when the
  pupil region is set, a pupil has been drawn, and the region is the 200 by 200 box whose
  centre is the truncated centre of the ellipse fitted to the pupil most recently drawn; when
  the reflection region is set, a reflection has been drawn, and the region is the 30 by 30
  box whose centre is the truncated centre of the rectangle fitted to the reflection most
  recently drawn. A call of \<^verbatim>\<open>draw_pupil\<close> or \<^verbatim>\<open>draw_refle\<close> returns exactly when it selects
  a candidate, and has then set its region to the box around that candidate, whatever
  \<^verbatim>\<open>verbose\<close> is.
\<close>

theorem roi_slots:
  "roi_sizes (run d lib xs init)
   \<and> (\<forall>r. roi_pupil (run d lib xs init) = Some r \<longrightarrow>
         (\<exists>cnt. last_pupil d lib xs init None = Some cnt
            \<and> r = around 100 (fst (fitEllipse lib cnt))
            \<and> roi_width r = 200 \<and> roi_height r = 200
            \<and> roi_centre r = (real_of_int (py_int (fst (fst (fitEllipse lib cnt)))),
                              real_of_int (py_int (snd (fst (fitEllipse lib cnt)))))))
   \<and> (\<forall>r. roi_refle (run d lib xs init) = Some r \<longrightarrow>
         (\<exists>cnt. last_refle d lib xs init None = Some cnt
            \<and> r = around 15 (fst (minAreaRect lib cnt))
            \<and> roi_width r = 30 \<and> roi_height r = 30
            \<and> roi_centre r = (real_of_int (py_int (fst (fst (minAreaRect lib cnt)))),
                              real_of_int (py_int (snd (fst (minAreaRect lib cnt)))))))
   \<and> (fst (draw_pupil lib index r verbose st) = Inr ()
        \<longleftrightarrow> (\<exists>cnt. drawn_pupil lib (DrawPupil index r verbose) st = Some cnt))
   \<and> (fst (draw_refle lib index r verbose st) = Inr ()
        \<longleftrightarrow> (\<exists>cnt. drawn_refle lib (DrawRefle index r verbose) st = Some cnt))
   \<and> (fst (draw_pupil lib index r verbose st) = Inr () \<longrightarrow>
        (\<exists>found cnt. fst (find_pupils lib r st) = Inr found
           \<and> py_index found (default_index index) = Some cnt
           \<and> roi_pupil (snd (draw_pupil lib index r verbose st))
               = Some (around 100 (fst (fitEllipse lib cnt)))))
   \<and> (fst (draw_refle lib index r verbose st) = Inr () \<longrightarrow>
        (\<exists>found cnt. fst (find_refle lib r st) = Inr found
           \<and> py_index found (default_index index) = Some cnt
           \<and> roi_refle (snd (draw_refle lib index r verbose st))
               = Some (around 15 (fst (minAreaRect lib cnt)))))"
proof -
  have a: "roi_sizes (run d lib xs init)"
    by (rule roi_sizes_run) (rule roi_sizes_init)
  have p: "\<forall>r. roi_pupil (run d lib xs init) = Some r \<longrightarrow>
         (\<exists>cnt. last_pupil d lib xs init None = Some cnt
            \<and> r = around 100 (fst (fitEllipse lib cnt))
            \<and> roi_width r = 200 \<and> roi_height r = 200
            \<and> roi_centre r = (real_of_int (py_int (fst (fst (fitEllipse lib cnt)))),
                              real_of_int (py_int (snd (fst (fitEllipse lib cnt))))))"
  proof (intro allI impI)
    fix r
    assume s: "roi_pupil (run d lib xs init) = Some r"
    from pupil_slot_run [OF slot_ok_init(1), of lib d xs] s
    obtain cnt where l: "last_pupil d lib xs init None = Some cnt"
      and e: "r = around 100 (fst (fitEllipse lib cnt))"
      by (auto simp: pupil_slot_ok_def split: option.splits)
    from e around_size [of 100 "fst (fitEllipse lib cnt)"]
         around_centre [of 100 "fst (fitEllipse lib cnt)"]
    have "roi_width r = 200 \<and> roi_height r = 200
          \<and> roi_centre r = (real_of_int (py_int (fst (fst (fitEllipse lib cnt)))),
                            real_of_int (py_int (snd (fst (fitEllipse lib cnt)))))"
      by simp
    with l e
    show "\<exists>cnt. last_pupil d lib xs init None = Some cnt
            \<and> r = around 100 (fst (fitEllipse lib cnt))
            \<and> roi_width r = 200 \<and> roi_height r = 200
            \<and> roi_centre r = (real_of_int (py_int (fst (fst (fitEllipse lib cnt)))),
                              real_of_int (py_int (snd (fst (fitEllipse lib cnt)))))"
      by blast
  qed
  have q: "\<forall>r. roi_refle (run d lib xs init) = Some r \<longrightarrow>
         (\<exists>cnt. last_refle d lib xs init None = Some cnt
            \<and> r = around 15 (fst (minAreaRect lib cnt))
            \<and> roi_width r = 30 \<and> roi_height r = 30
            \<and> roi_centre r = (real_of_int (py_int (fst (fst (minAreaRect lib cnt)))),
                              real_of_int (py_int (snd (fst (minAreaRect lib cnt))))))"
  proof (intro allI impI)
    fix r
    assume s: "roi_refle (run d lib xs init) = Some r"
    from refle_slot_run [OF slot_ok_init(2), of lib d xs] s
    obtain cnt where l: "last_refle d lib xs init None = Some cnt"
      and e: "r = around 15 (fst (minAreaRect lib cnt))"
      by (auto simp: refle_slot_ok_def split: option.splits)
    from e around_size [of 15 "fst (minAreaRect lib cnt)"]
         around_centre [of 15 "fst (minAreaRect lib cnt)"]
    have "roi_width r = 30 \<and> roi_height r = 30
          \<and> roi_centre r = (real_of_int (py_int (fst (fst (minAreaRect lib cnt)))),
                            real_of_int (py_int (snd (fst (minAreaRect lib cnt)))))"
      by simp
    with l e
    show "\<exists>cnt. last_refle d lib xs init None = Some cnt
            \<and> r = around 15 (fst (minAreaRect lib cnt))
            \<and> roi_width r = 30 \<and> roi_height r = 30
            \<and> roi_centre r = (real_of_int (py_int (fst (fst (minAreaRect lib cnt)))),
                              real_of_int (py_int (snd (fst (minAreaRect lib cnt)))))"
      by blast
  qed
  have rp: "fst (draw_pupil lib index r verbose st) = Inr ()
        \<longleftrightarrow> (\<exists>cnt. drawn_pupil lib (DrawPupil index r verbose) st = Some cnt)"
    by (simp add: draw_pupil_returns)
  have rr: "fst (draw_refle lib index r verbose st) = Inr ()
        \<longleftrightarrow> (\<exists>cnt. drawn_refle lib (DrawRefle index r verbose) st = Some cnt)"
    by (simp add: draw_refle_returns)
  have b: "fst (draw_pupil lib index r verbose st) = Inr () \<longrightarrow>
        (\<exists>found cnt. fst (find_pupils lib r st) = Inr found
           \<and> py_index found (default_index index) = Some cnt
           \<and> roi_pupil (snd (draw_pupil lib index r verbose st))
               = Some (around 100 (fst (fitEllipse lib cnt))))"
    using draw_pupil_cases [of lib index r verbose st] by auto
  have c: "fst (draw_refle lib index r verbose st) = Inr () \<longrightarrow>
        (\<exists>found cnt. fst (find_refle lib r st) = Inr found
           \<and> py_index found (default_index index) = Some cnt
           \<and> roi_refle (snd (draw_refle lib index r verbose st))
               = Some (around 15 (fst (minAreaRect lib cnt))))"
    using draw_refle_cases [of lib index r verbose st] by auto
  from a p q rp rr b c show ?thesis by (intro conjI)
qed

theorem roi_slots_witness:
  "roi_pupil (run (Suc (Suc 0)) (sample_cv [octagon, octagon2])
                [LoadVideo one_frame_capture, DrawPupil (Some 1) None False] init)
     = Some ((30, 30), (230, 230))
   \<and> (\<exists>cnt. last_pupil (Suc (Suc 0)) (sample_cv [octagon, octagon2])
               [LoadVideo one_frame_capture, DrawPupil (Some 1) None False] init None = Some cnt
         \<and> ((30, 30), (230, 230)) = around 100 (fst (fitEllipse (sample_cv [octagon, octagon2]) cnt))
         \<and> roi_width ((30, 30), (230, 230)) = 200 \<and> roi_height ((30, 30), (230, 230)) = 200
         \<and> roi_centre ((30, 30), (230, 230))
             = (real_of_int (py_int (fst (fst (fitEllipse (sample_cv [octagon, octagon2]) cnt)))),
                real_of_int (py_int (snd (fst (fitEllipse (sample_cv [octagon, octagon2]) cnt))))))
   \<and> roi_refle (run (Suc (Suc 0)) (sample_cv [odd_square])
                  [LoadVideo one_frame_capture, DrawRefle None None True] init)
       = Some ((99, 99), (129, 129))
   \<and> (\<exists>cnt. last_refle (Suc (Suc 0)) (sample_cv [odd_square])
               [LoadVideo one_frame_capture, DrawRefle None None True] init None = Some cnt
         \<and> ((99, 99), (129, 129)) = around 15 (fst (minAreaRect (sample_cv [odd_square]) cnt))
         \<and> roi_width ((99, 99), (129, 129)) = 30 \<and> roi_height ((99, 99), (129, 129)) = 30
         \<and> roi_centre ((99, 99), (129, 129))
             = (real_of_int (py_int (fst (fst (minAreaRect (sample_cv [odd_square]) cnt)))),
                real_of_int (py_int (snd (fst (minAreaRect (sample_cv [odd_square]) cnt))))))
   \<and> fst (draw_refle (sample_cv [odd_square]) None None False (sample_state None None))
       = Inr ()
   \<and> (\<exists>found cnt.
         fst (find_refle (sample_cv [odd_square]) None (sample_state None None)) = Inr found
         \<and> py_index found (default_index None) = Some cnt
         \<and> roi_refle (snd (draw_refle (sample_cv [odd_square]) None None False
                             (sample_state None None)))
             = Some (around 15 (fst (minAreaRect (sample_cv [odd_square]) cnt))))"
proof -
  have p: "roi_pupil (run (Suc (Suc 0)) (sample_cv [octagon, octagon2])
                        [LoadVideo one_frame_capture, DrawPupil (Some 1) None False] init)
           = Some ((30, 30), (230, 230))"
    by (rule sample_run_slot)
  have q: "fst (draw_refle (sample_cv [odd_square]) None None False (sample_state None None))
           = Inr ()"
    using sample_draw_refle_odd [of False] by simp
  from roi_slots [of "Suc (Suc 0)" "sample_cv [octagon, octagon2]"
                     "[LoadVideo one_frame_capture, DrawPupil (Some 1) None False]"
                     None None False "sample_state None None"] p
  have w1: "\<exists>cnt. last_pupil (Suc (Suc 0)) (sample_cv [octagon, octagon2])
               [LoadVideo one_frame_capture, DrawPupil (Some 1) None False] init None = Some cnt
         \<and> ((30, 30), (230, 230)) = around 100 (fst (fitEllipse (sample_cv [octagon, octagon2]) cnt))
         \<and> roi_width ((30, 30), (230, 230)) = 200 \<and> roi_height ((30, 30), (230, 230)) = 200
         \<and> roi_centre ((30, 30), (230, 230))
             = (real_of_int (py_int (fst (fst (fitEllipse (sample_cv [octagon, octagon2]) cnt)))),
                real_of_int (py_int (snd (fst (fitEllipse (sample_cv [octagon, octagon2]) cnt)))))"
    by blast
  have p2: "roi_refle (run (Suc (Suc 0)) (sample_cv [odd_square])
                         [LoadVideo one_frame_capture, DrawRefle None None True] init)
            = Some ((99, 99), (129, 129))"
    by (rule sample_run_refle_slot)
  from roi_slots [of "Suc (Suc 0)" "sample_cv [odd_square]"
                     "[LoadVideo one_frame_capture, DrawRefle None None True]"
                     None None False "sample_state None None"] p2
  have w3: "\<exists>cnt. last_refle (Suc (Suc 0)) (sample_cv [odd_square])
               [LoadVideo one_frame_capture, DrawRefle None None True] init None = Some cnt
         \<and> ((99, 99), (129, 129)) = around 15 (fst (minAreaRect (sample_cv [odd_square]) cnt))
         \<and> roi_width ((99, 99), (129, 129)) = 30 \<and> roi_height ((99, 99), (129, 129)) = 30
         \<and> roi_centre ((99, 99), (129, 129))
             = (real_of_int (py_int (fst (fst (minAreaRect (sample_cv [odd_square]) cnt)))),
                real_of_int (py_int (snd (fst (minAreaRect (sample_cv [odd_square]) cnt)))))"
    by blast
  from roi_slots [of 0 "sample_cv [odd_square]" "[]" None None False
                     "sample_state None None"] q
  have w2: "\<exists>found cnt.
         fst (find_refle (sample_cv [odd_square]) None (sample_state None None)) = Inr found
         \<and> py_index found (default_index None) = Some cnt
         \<and> roi_refle (snd (draw_refle (sample_cv [odd_square]) None None False
                             (sample_state None None)))
             = Some (around 15 (fst (minAreaRect (sample_cv [odd_square]) cnt)))"
    by blast
  from p w1 p2 w3 q w2 show ?thesis by (intro conjI)
qed

text \<open>
  C5, as stated. The reflection contour has its rectangle fit centred at (114.5, 114.5); the
  call of \<^verbatim>\<open>draw_refle\<close> returns and stores (99,99)-(129,129), whose centre is (114, 114)
  and not the centre of the rectangle fit.
\<close>

theorem draw_refle_centre_counterexample:
  "fst (draw_refle (sample_cv [odd_square]) None None True (sample_state None None)) = Inr ()
   \<and> roi_refle (snd (draw_refle (sample_cv [odd_square]) None None True
                       (sample_state None None))) = Some ((99, 99), (129, 129))
   \<and> roi_centre ((99, 99), (129, 129))
       \<noteq> fst (minAreaRect (sample_cv [odd_square]) odd_square)"
  using sample_draw_refle_odd [of True]
  by (simp add: roi_centre_def sample_minAreaRect box_fit_odd)

text \<open>
  C6, as the code has it. When the pupil search returns a list, \<^verbatim>\<open>draw_pupil\<close> raises
  \<^verbatim>\<open>AttributeError\<close> exactly when the list is empty, and \<^verbatim>\<open>IndexError\<close> exactly when
  the list is not empty and the index is at or past its length or below minus its length.
\<close>

theorem draw_pupil_errors:
  assumes "fst (find_pupils lib r st) = Inr found"
  shows "(fst (draw_pupil lib index r v st) = Inl AttributeError \<longleftrightarrow> found = [])
         \<and> (fst (draw_pupil lib index r v st) = Inl IndexError \<longleftrightarrow>
              found \<noteq> []
              \<and> (int (length found) \<le> default_index index
                 \<or> default_index index < - int (length found)))"
  using py_index_None [of found "default_index index"]
  by (auto simp: draw_pupil_fst [OF fst_pair [OF assms]] split: option.splits)

theorem draw_pupil_errors_witness:
  "fst (find_pupils (sample_cv [octagon, octagon2]) None (sample_state None None))
     = Inr [octagon, octagon2]
   \<and> fst (draw_pupil (sample_cv [octagon, octagon2]) (Some 5) None True
            (sample_state None None)) = Inl IndexError"
  using draw_pupil_errors [OF sample_find_pupils [of None None], of "Some 5" True]
        sample_find_pupils [of None None]
  by (simp add: default_index_def)

text \<open>
  C6, as stated. With two candidates and index -3 the call raises \<^verbatim>\<open>IndexError\<close> although
  the index is not at or past the length of the list.
\<close>

theorem draw_pupil_negative_index_counterexample:
  "fst (find_pupils (sample_cv [octagon, octagon2]) None (sample_state None None))
     = Inr [octagon, octagon2]
   \<and> fst (draw_pupil (sample_cv [octagon, octagon2]) (Some (- 3)) None True
            (sample_state None None)) = Inl IndexError
   \<and> \<not> int (length [octagon, octagon2]) \<le> - 3"
  by (simp add: sample_find_pupils sample_draw_pupil py_index_def default_index_def)

text \<open>
  C7. \<^verbatim>\<open>track_pupil\<close> returns at once and changes nothing when the pupil region is unset.
  When it is set, the tracker is left as \<^verbatim>\<open>draw_pupil\<close> with that region leaves it; an
  \<^verbatim>\<open>IndexError\<close> or \<^verbatim>\<open>AttributeError\<close> of the draw is swallowed and the region is then
  what it was, any other error is passed on. The same holds for \<^verbatim>\<open>track_refle\<close>.
\<close>

theorem track_swallows:
  "(roi_pupil st = None \<longrightarrow> track_pupil lib st = (Inr (), st))
   \<and> (roi_refle st = None \<longrightarrow> track_refle lib st = (Inr (), st))
   \<and> (roi_pupil st = Some r \<longrightarrow>
        snd (track_pupil lib st) = snd (draw_pupil lib None (Some r) True st)
        \<and> (fst (draw_pupil lib None (Some r) True st) \<in> {Inl IndexError, Inl AttributeError}
             \<longrightarrow> fst (track_pupil lib st) = Inr ()
                 \<and> roi_pupil (snd (track_pupil lib st)) = Some r)
        \<and> (fst (draw_pupil lib None (Some r) True st) \<notin> {Inl IndexError, Inl AttributeError}
             \<longrightarrow> fst (track_pupil lib st) = fst (draw_pupil lib None (Some r) True st)))
   \<and> (roi_refle st = Some r \<longrightarrow>
        snd (track_refle lib st) = snd (draw_refle lib None (Some r) True st)
        \<and> (fst (draw_refle lib None (Some r) True st) \<in> {Inl IndexError, Inl AttributeError}
             \<longrightarrow> fst (track_refle lib st) = Inr ()
                 \<and> roi_refle (snd (track_refle lib st)) = Some r)
        \<and> (fst (draw_refle lib None (Some r) True st) \<notin> {Inl IndexError, Inl AttributeError}
             \<longrightarrow> fst (track_refle lib st) = fst (draw_refle lib None (Some r) True st)))"
proof -
  have a: "roi_pupil st = None \<longrightarrow> track_pupil lib st = (Inr (), st)"
    by (simp add: track_pupil_eq)
  have b: "roi_refle st = None \<longrightarrow> track_refle lib st = (Inr (), st)"
    by (simp add: track_refle_eq)
  have c: "roi_pupil st = Some r \<longrightarrow>
        snd (track_pupil lib st) = snd (draw_pupil lib None (Some r) True st)
        \<and> (fst (draw_pupil lib None (Some r) True st) \<in> {Inl IndexError, Inl AttributeError}
             \<longrightarrow> fst (track_pupil lib st) = Inr ()
                 \<and> roi_pupil (snd (track_pupil lib st)) = Some r)
        \<and> (fst (draw_pupil lib None (Some r) True st) \<notin> {Inl IndexError, Inl AttributeError}
             \<longrightarrow> fst (track_pupil lib st) = fst (draw_pupil lib None (Some r) True st))"
    using draw_pupil_cases [of lib None "Some r" True st]
    by (auto simp: track_pupil_eq)
  have e: "roi_refle st = Some r \<longrightarrow>
        snd (track_refle lib st) = snd (draw_refle lib None (Some r) True st)
        \<and> (fst (draw_refle lib None (Some r) True st) \<in> {Inl IndexError, Inl AttributeError}
             \<longrightarrow> fst (track_refle lib st) = Inr ()
                 \<and> roi_refle (snd (track_refle lib st)) = Some r)
        \<and> (fst (draw_refle lib None (Some r) True st) \<notin> {Inl IndexError, Inl AttributeError}
             \<longrightarrow> fst (track_refle lib st) = fst (draw_refle lib None (Some r) True st))"
    using draw_refle_cases [of lib None "Some r" True st]
    by (auto simp: track_refle_eq)
  from a b c e show ?thesis by (intro conjI)
qed

theorem track_swallows_witness:
  "roi_pupil (sample_state None None) = None
   \<and> track_pupil (sample_cv []) (sample_state None None) = (Inr (), sample_state None None)
   \<and> roi_pupil (sample_state (Some ((0, 0), (200, 200))) (Some ((100, 100), (130, 130))))
       = Some ((0, 0), (200, 200))
   \<and> fst (draw_pupil (sample_cv []) None (Some ((0, 0), (200, 200))) True
            (sample_state (Some ((0, 0), (200, 200))) (Some ((100, 100), (130, 130)))))
       = Inl AttributeError
   \<and> fst (track_pupil (sample_cv [])
            (sample_state (Some ((0, 0), (200, 200))) (Some ((100, 100), (130, 130)))))
       = Inr ()
   \<and> roi_pupil (snd (track_pupil (sample_cv [])
            (sample_state (Some ((0, 0), (200, 200))) (Some ((100, 100), (130, 130))))))
       = Some ((0, 0), (200, 200))
   \<and> fst (draw_refle (sample_cv []) None (Some ((100, 100), (130, 130))) True
            (sample_state (Some ((0, 0), (200, 200))) (Some ((100, 100), (130, 130)))))
       = Inl AttributeError
   \<and> fst (track_refle (sample_cv [])
            (sample_state (Some ((0, 0), (200, 200))) (Some ((100, 100), (130, 130)))))
       = Inr ()
   \<and> roi_refle (snd (track_refle (sample_cv [])
            (sample_state (Some ((0, 0), (200, 200))) (Some ((100, 100), (130, 130))))))
       = Some ((100, 100), (130, 130))"
proof -
  let ?s = "sample_state (Some ((0, 0), (200, 200))) (Some ((100, 100), (130, 130)))"
  have n: "roi_pupil (sample_state None None) = None" by (simp add: sample_state_def)
  have p: "roi_pupil ?s = Some ((0, 0), (200, 200))" by (simp add: sample_state_def)
  have q: "roi_refle ?s = Some ((100, 100), (130, 130))" by (simp add: sample_state_def)
  have ep: "find_pupils (sample_cv []) (Some ((0, 0), (200, 200))) ?s
            = (Inr [], snd (find_pupils (sample_cv []) (Some ((0, 0), (200, 200))) ?s))"
    by (rule fst_pair) (rule sample_no_pupils [OF crop_sample_200])
  have er: "find_refle (sample_cv []) (Some ((100, 100), (130, 130))) ?s
            = (Inr [], snd (find_refle (sample_cv []) (Some ((100, 100), (130, 130))) ?s))"
    by (rule fst_pair) (rule sample_no_refle [OF crop_sample_200])
  have dp: "fst (draw_pupil (sample_cv []) None (Some ((0, 0), (200, 200))) True ?s)
            = Inl AttributeError"
    by (simp add: draw_pupil_fst [OF ep])
  have dr: "fst (draw_refle (sample_cv []) None (Some ((100, 100), (130, 130))) True ?s)
            = Inl AttributeError"
    by (simp add: draw_refle_fst [OF er])
  from track_swallows [of "sample_state None None" "sample_cv []" undefined] n
  have w0: "track_pupil (sample_cv []) (sample_state None None)
            = (Inr (), sample_state None None)"
    by blast
  from dp have mp: "fst (draw_pupil (sample_cv []) None (Some ((0, 0), (200, 200))) True ?s)
                      \<in> {Inl IndexError, Inl AttributeError}"
    by simp
  from dr have mr: "fst (draw_refle (sample_cv []) None (Some ((100, 100), (130, 130))) True ?s)
                      \<in> {Inl IndexError, Inl AttributeError}"
    by simp
  from track_swallows [of ?s "sample_cv []" "((0, 0), (200, 200))"] p mp
  have w1: "fst (track_pupil (sample_cv []) ?s) = Inr ()
            \<and> roi_pupil (snd (track_pupil (sample_cv []) ?s)) = Some ((0, 0), (200, 200))"
    by blast
  from track_swallows [of ?s "sample_cv []" "((100, 100), (130, 130))"] q mr
  have w2: "fst (track_refle (sample_cv []) ?s) = Inr ()
            \<and> roi_refle (snd (track_refle (sample_cv []) ?s)) = Some ((100, 100), (130, 130))"
    by blast
  from n w0 p dp w1 dr w2 show ?thesis by blast
qed

text \<open>
  C8. Every candidate that \<^verbatim>\<open>find_refle\<close> returns is a contour of the thresholded frame,
  moved by the crop offset, whose area lies strictly between 25 and 500 and whose rectangle
  fit has a width that is not zero and a ratio of height to width, and so of width to
  height, strictly between 0.5 and 2.
\<close>

theorem find_refle_filters:
  assumes "fst (find_refle lib r st) = Inr found" and "c \<in> set found"
  shows "\<exists>cnt. c = translate (fst (offset (roi_pupil st))) (snd (offset (roi_pupil st))) cnt
           \<and> 25 < contourArea lib cnt \<and> contourArea lib cnt < 500
           \<and> fst (fst (snd (minAreaRect lib c))) \<noteq> 0
           \<and> 1 / 2 < snd (fst (snd (minAreaRect lib c))) / fst (fst (snd (minAreaRect lib c)))
           \<and> snd (fst (snd (minAreaRect lib c))) / fst (fst (snd (minAreaRect lib c))) < 2
           \<and> 1 / 2 < fst (fst (snd (minAreaRect lib c))) / snd (fst (snd (minAreaRect lib c)))
           \<and> fst (fst (snd (minAreaRect lib c))) / snd (fst (snd (minAreaRect lib c))) < 2"
proof -
  from assms(1) obtain im where
    l: "find_refle_loop lib r (roi_refle st) (fst (offset (roi_pupil st)))
          (snd (offset (roi_pupil st)))
          (refle_contours lib im (roi_pupil st) (noise_kernel st)) [] = Inr found"
    by (auto simp: find_refle_eq split: option.splits if_splits)
  from find_refle_loop_sound [OF l assms(2)]
  obtain cnt where t: "c = translate (fst (offset (roi_pupil st))) (snd (offset (roi_pupil st))) cnt"
    and s: "refle_shape lib c cnt"
    by auto
  from s have a: "1 / 2 < snd (fst (snd (minAreaRect lib c))) / fst (fst (snd (minAreaRect lib c)))"
    and b: "snd (fst (snd (minAreaRect lib c))) / fst (fst (snd (minAreaRect lib c))) < 2"
    by (simp_all add: refle_shape_def)
  from ratio_reciprocal [OF a b] t s show ?thesis
    unfolding refle_shape_def by blast
qed

theorem find_refle_filters_witness:
  "fst (find_refle (sample_cv [cropped_square]) None
          (sample_state (Some ((100, 100), (300, 300))) None)) = Inr [bright_square]
   \<and> bright_square \<in> set [bright_square]
   \<and> (\<exists>cnt. bright_square
              = translate
                  (fst (offset (roi_pupil (sample_state (Some ((100, 100), (300, 300))) None))))
                  (snd (offset (roi_pupil (sample_state (Some ((100, 100), (300, 300))) None))))
                  cnt
         \<and> 25 < contourArea (sample_cv [cropped_square]) cnt
         \<and> contourArea (sample_cv [cropped_square]) cnt < 500
         \<and> fst (fst (snd (minAreaRect (sample_cv [cropped_square]) bright_square))) \<noteq> 0
         \<and> 1 / 2 < snd (fst (snd (minAreaRect (sample_cv [cropped_square]) bright_square)))
                   / fst (fst (snd (minAreaRect (sample_cv [cropped_square]) bright_square)))
         \<and> snd (fst (snd (minAreaRect (sample_cv [cropped_square]) bright_square)))
             / fst (fst (snd (minAreaRect (sample_cv [cropped_square]) bright_square))) < 2
         \<and> 1 / 2 < fst (fst (snd (minAreaRect (sample_cv [cropped_square]) bright_square)))
                   / snd (fst (snd (minAreaRect (sample_cv [cropped_square]) bright_square)))
         \<and> fst (fst (snd (minAreaRect (sample_cv [cropped_square]) bright_square)))
             / snd (fst (snd (minAreaRect (sample_cv [cropped_square]) bright_square))) < 2)"
proof -
  have e: "fst (find_refle (sample_cv [cropped_square]) None
                  (sample_state (Some ((100, 100), (300, 300))) None)) = Inr [bright_square]"
    by (rule sample_find_refle_cropped)
  have m: "bright_square \<in> set [bright_square]" by simp
  from e m find_refle_filters [OF e m] show ?thesis by (intro conjI)
qed

text \<open>
  C9. With an original frame stored, \<^verbatim>\<open>get_orig_frame\<close> returns it, makes it the current
  frame and clears both regions, and a second call right after returns the same frame and
  leaves the tracker as the first call left it. With no original frame stored the call
  raises \<^verbatim>\<open>AttributeError\<close> and changes nothing.
\<close>

theorem reset_idempotent:
  "(orig_image st = Some img \<longrightarrow>
      fst (get_orig_frame st) = Inr img
      \<and> frame (snd (get_orig_frame st)) = Some img
      \<and> orig_image (snd (get_orig_frame st)) = Some img
      \<and> roi_pupil (snd (get_orig_frame st)) = None
      \<and> roi_refle (snd (get_orig_frame st)) = None
      \<and> get_orig_frame (snd (get_orig_frame st)) = (Inr img, snd (get_orig_frame st)))
   \<and> (orig_image st = None \<longrightarrow> get_orig_frame st = (Inl AttributeError, st))"
  by (simp add: get_orig_frame_def)

theorem reset_idempotent_witness:
  "orig_image tracked_state = Some sample_frame
   \<and> fst (get_orig_frame tracked_state) = Inr sample_frame
   \<and> roi_pupil (snd (get_orig_frame tracked_state)) = None
   \<and> roi_refle (snd (get_orig_frame tracked_state)) = None
   \<and> get_orig_frame (snd (get_orig_frame tracked_state))
       = (Inr sample_frame, snd (get_orig_frame tracked_state))
   \<and> orig_image init = None
   \<and> get_orig_frame init = (Inl AttributeError, init)"
proof -
  have a: "orig_image tracked_state = Some sample_frame" by (simp add: tracked_state_def)
  have b: "orig_image init = None" by (simp add: init_def)
  from reset_idempotent [of tracked_state sample_frame] a
       reset_idempotent [of init undefined] b
  show ?thesis by blast
qed

text \<open>
  C10. When the search returns a list of n candidates and the index i is negative with
  -n <= i, \<^verbatim>\<open>draw_pupil\<close> and \<^verbatim>\<open>draw_refle\<close> return and store the region around the
  candidate at position n + i; \<^verbatim>\<open>IndexError\<close> is raised exactly when the list is not
  empty and n <= i or i < -n.
\<close>

theorem negative_index_selects:
  "(fst (find_pupils lib r st) = Inr found \<and> - int (length found) \<le> i \<and> i < 0 \<longrightarrow>
      fst (draw_pupil lib (Some i) r v st) = Inr ()
      \<and> roi_pupil (snd (draw_pupil lib (Some i) r v st))
          = Some (around 100 (fst (fitEllipse lib (found ! nat (int (length found) + i))))))
   \<and> (fst (find_refle lib r st) = Inr found \<and> - int (length found) \<le> i \<and> i < 0 \<longrightarrow>
        fst (draw_refle lib (Some i) r v st) = Inr ()
        \<and> roi_refle (snd (draw_refle lib (Some i) r v st))
            = Some (around 15 (fst (minAreaRect lib (found ! nat (int (length found) + i))))))
   \<and> (fst (find_pupils lib r st) = Inr found \<longrightarrow>
        (fst (draw_pupil lib (Some i) r v st) = Inl IndexError \<longleftrightarrow>
           found \<noteq> [] \<and> (int (length found) \<le> i \<or> i < - int (length found))))
   \<and> (fst (find_refle lib r st) = Inr found \<longrightarrow>
        (fst (draw_refle lib (Some i) r v st) = Inl IndexError \<longleftrightarrow>
           found \<noteq> [] \<and> (int (length found) \<le> i \<or> i < - int (length found))))"
proof -
  have d: "default_index (Some i) = i" by (simp add: default_index_def)
  have a: "fst (find_pupils lib r st) = Inr found \<and> - int (length found) \<le> i \<and> i < 0 \<longrightarrow>
      fst (draw_pupil lib (Some i) r v st) = Inr ()
      \<and> roi_pupil (snd (draw_pupil lib (Some i) r v st))
          = Some (around 100 (fst (fitEllipse lib (found ! nat (int (length found) + i)))))"
  proof
    assume h: "fst (find_pupils lib r st) = Inr found \<and> - int (length found) \<le> i \<and> i < 0"
    then have p: "find_pupils lib r st = (Inr found, snd (find_pupils lib r st))"
      by (simp add: fst_pair)
    from h have x: "py_index found (default_index (Some i))
                    = Some (found ! nat (int (length found) + i))"
      by (simp add: d py_index_neg)
    from h have ne: "found \<noteq> []" by auto
    from draw_pupil_fst [OF p, of "Some i" v] draw_pupil_selected [OF p x, of v] x ne
    show "fst (draw_pupil lib (Some i) r v st) = Inr ()
      \<and> roi_pupil (snd (draw_pupil lib (Some i) r v st))
          = Some (around 100 (fst (fitEllipse lib (found ! nat (int (length found) + i)))))"
      by simp
  qed
  have b: "fst (find_refle lib r st) = Inr found \<and> - int (length found) \<le> i \<and> i < 0 \<longrightarrow>
        fst (draw_refle lib (Some i) r v st) = Inr ()
        \<and> roi_refle (snd (draw_refle lib (Some i) r v st))
            = Some (around 15 (fst (minAreaRect lib (found ! nat (int (length found) + i)))))"
  proof
    assume h: "fst (find_refle lib r st) = Inr found \<and> - int (length found) \<le> i \<and> i < 0"
    then have p: "find_refle lib r st = (Inr found, snd (find_refle lib r st))"
      by (simp add: fst_pair)
    from h have x: "py_index found (default_index (Some i))
                    = Some (found ! nat (int (length found) + i))"
      by (simp add: d py_index_neg)
    from h have ne: "found \<noteq> []" by auto
    from draw_refle_fst [OF p, of "Some i" v] draw_refle_selected [OF p x, of v] x ne
    show "fst (draw_refle lib (Some i) r v st) = Inr ()
        \<and> roi_refle (snd (draw_refle lib (Some i) r v st))
            = Some (around 15 (fst (minAreaRect lib (found ! nat (int (length found) + i)))))"
      by simp
  qed
  have c: "fst (find_pupils lib r st) = Inr found \<longrightarrow>
        (fst (draw_pupil lib (Some i) r v st) = Inl IndexError \<longleftrightarrow>
           found \<noteq> [] \<and> (int (length found) \<le> i \<or> i < - int (length found)))"
  proof
    assume h: "fst (find_pupils lib r st) = Inr found"
    show "fst (draw_pupil lib (Some i) r v st) = Inl IndexError \<longleftrightarrow>
           found \<noteq> [] \<and> (int (length found) \<le> i \<or> i < - int (length found))"
      using py_index_None [of found i]
      by (auto simp: draw_pupil_fst [OF fst_pair [OF h]] d split: option.splits)
  qed
  have e: "fst (find_refle lib r st) = Inr found \<longrightarrow>
        (fst (draw_refle lib (Some i) r v st) = Inl IndexError \<longleftrightarrow>
           found \<noteq> [] \<and> (int (length found) \<le> i \<or> i < - int (length found)))"
  proof
    assume h: "fst (find_refle lib r st) = Inr found"
    show "fst (draw_refle lib (Some i) r v st) = Inl IndexError \<longleftrightarrow>
           found \<noteq> [] \<and> (int (length found) \<le> i \<or> i < - int (length found))"
      using py_index_None [of found i]
      by (auto simp: draw_refle_fst [OF fst_pair [OF h]] d split: option.splits)
  qed
  from a b c e show ?thesis by (intro conjI)
qed

theorem negative_index_selects_witness:
  "fst (find_pupils (sample_cv [octagon, octagon2]) None (sample_state None None))
     = Inr [octagon, octagon2]
   \<and> fst (draw_pupil (sample_cv [octagon, octagon2]) (Some (- 2)) None True
            (sample_state None None)) = Inr ()
   \<and> roi_pupil (snd (draw_pupil (sample_cv [octagon, octagon2]) (Some (- 2)) None True
                       (sample_state None None)))
       = Some (around 100 (fst (fitEllipse (sample_cv [octagon, octagon2]) octagon)))
   \<and> fst (find_refle (sample_cv [odd_square]) None (sample_state None None))
       = Inr [odd_square]
   \<and> fst (draw_refle (sample_cv [odd_square]) (Some (- 1)) None True
            (sample_state None None)) = Inr ()
   \<and> roi_refle (snd (draw_refle (sample_cv [odd_square]) (Some (- 1)) None True
                       (sample_state None None)))
       = Some (around 15 (fst (minAreaRect (sample_cv [odd_square]) odd_square)))"
proof -
  have e: "fst (find_pupils (sample_cv [octagon, octagon2]) None (sample_state None None))
           = Inr [octagon, octagon2]"
    by (rule sample_find_pupils)
  have f: "fst (find_refle (sample_cv [odd_square]) None (sample_state None None))
           = Inr [odd_square]"
    by (rule sample_find_refle_odd)
  from negative_index_selects
         [of "sample_cv [octagon, octagon2]" None "sample_state None None"
             "[octagon, octagon2]" "- 2" True] e
  have w1: "fst (draw_pupil (sample_cv [octagon, octagon2]) (Some (- 2)) None True
                   (sample_state None None)) = Inr ()
            \<and> roi_pupil (snd (draw_pupil (sample_cv [octagon, octagon2]) (Some (- 2)) None True
                                (sample_state None None)))
                = Some (around 100 (fst (fitEllipse (sample_cv [octagon, octagon2]) octagon)))"
    by simp
  from negative_index_selects
         [of "sample_cv [odd_square]" None "sample_state None None" "[odd_square]" "- 1" True] f
  have w2: "fst (draw_refle (sample_cv [odd_square]) (Some (- 1)) None True
                   (sample_state None None)) = Inr ()
            \<and> roi_refle (snd (draw_refle (sample_cv [odd_square]) (Some (- 1)) None True
                                (sample_state None None)))
                = Some (around 15 (fst (minAreaRect (sample_cv [odd_square]) odd_square)))"
    by simp
  from e w1 f w2 show ?thesis by blast
qed

end
